theory Spec2Isabelle
  imports Main
begin

section \<open>Data model of the problem page\<close>

text \<open>
  The execution session lives in the React component \<open>ProblemDetailPage\<close>. Its
  \<open>useState\<close> cells, its \<open>useRef\<close> cells and the part of the browser it talks to
  (timers, WebSockets, outstanding HTTP promises) are gathered in one record, \<open>world\<close>.
  JavaScript is single threaded: an event handler runs without interruption up to its next
  \<open>await\<close>. Every such stretch of a handler is one function \<open>world \<Rightarrow> world\<close>; what is
  left of the handler after the \<open>await\<close> is stored as a \<open>task\<close> (an outstanding promise)
  or as a timer callback, and runs when that promise settles or that timer fires.
\<close>

text \<open>
  A JavaScript string is a sequence of UTF-16 code units. The strings the page trims or
  takes apart (the code buffer, boilerplate, the socket address) are kept as such, as lists
  of numbers; \<open>js\<close> turns an ASCII literal into one. The strings the page only
  compares or passes on (slugs, names, tokens, messages) are HOL strings.
\<close>

type_synonym jstring = "nat list"

definition js :: "string \<Rightarrow> jstring" where
  "js s = map of_char s"

record language =
  lang_id :: nat
  lang_name :: string
  lang_slug :: string
  lang_boilerplate :: jstring

record problem =
  p_slug :: string
  p_language :: "language option"

record phase =
  stdout :: string
  stderr :: string
  exit_code :: int
  signal :: "string option"
  phase_output :: string

record execution_result =
  er_language :: string
  er_version :: string
  er_run :: "phase option"
  er_compile :: "phase option"

text \<open>The JSON object sent over the socket by \<open>ws.send\<close>.\<close>

record exec_request =
  rq_language :: string
  rq_version :: string
  rq_code :: jstring
  rq_problem_slug :: string
  rq_mode :: string

text \<open>A parsed inbound socket message; an absent field is \<open>None\<close>.\<close>

record ws_message =
  m_error :: "string option"
  m_result :: "(phase option \<times> phase option) option"
  m_mode :: "string option"
  m_status :: "string option"
  m_submission_id :: "nat option"

datatype readyState = CONNECTING | OPEN | CLOSING | CLOSED

text \<open>
  The address given to \<open>new WebSocket\<close>: either
  \<open>`${cleanUrl}/execute/?token=${encodeURIComponent(token)}`\<close>, kept as its two parts,
  or \<open>cleanUrl\<close> alone.
\<close>

datatype ws_url = WithToken jstring string | Plain jstring

record socket =
  s_url :: ws_url
  s_state :: readyState

text \<open>Calls of \<open>attemptAPI\<close> and \<open>problemsAPI\<close>, as issued by the page.\<close>

datatype api_call =
    AttemptUpdate string jstring "nat option"
  | AttemptGet string nat
  | GetBoilerplate string string

text \<open>
  The fields of a fulfilled response that the page reads: \<open>data.code\<close> of an attempt and
  \<open>data.boilerplate\<close> of the boilerplate endpoint.
\<close>

record resp_data =
  r_code :: jstring
  r_boilerplate :: jstring

datatype response = Rejected | Fulfilled resp_data

text \<open>
  The variables a run or submit handler keeps reading after an \<open>await\<close>. They are those of
  the render in which the handler was created: \<open>code\<close>, and \<open>selectedLanguage\<close> and
  \<open>problem\<close>, both known to be non-null by the handler's first test.
\<close>

record run_closure =
  rc_code :: jstring
  rc_selectedLanguage :: language
  rc_problem :: problem

text \<open>What the caller of \<open>saveAttempt\<close> does once the awaited call has returned.\<close>

datatype after = NoCaller | RunCaller run_closure | SubmitCaller run_closure

text \<open>
  Timer callbacks: the debounced \<open>() => saveAttempt(newCode)\<close>, whose \<open>saveAttempt\<close>
  belongs to the render that armed the timer and so carries that render's
  \<open>selectedLanguage\<close>; and the rest of \<open>handleRunCode\<close> or \<open>handleSubmitCode\<close> after
  the 500 ms pause, with the handler's local \<open>ws\<close>.
\<close>

datatype timer_cb =
    DebouncedSave jstring "language option"
  | RunWait run_closure "nat option"
  | SubmitWait run_closure "nat option"

record timer =
  t_id :: nat
  t_due :: nat
  t_cb :: timer_cb

text \<open>Handlers suspended at an awaited HTTP call.\<close>

datatype task =
    SaveAttemptK bool after
  | LangSaveK string language
  | LangAttemptK string language
  | LangBoilerTryK string language
  | LangBoilerFallbackK string language
  | LangBoilerAnonK string language
  | UnmountSaveK

text \<open>
  \<open>slug\<close> and \<open>isAuthenticated\<close> come from hooks; \<open>problem\<close>, \<open>languages\<close> and
  \<open>loading\<close> are written by the loading effect only, which is not part of the handlers
  below, so closures that captured them hold the current value.
  \<open>memo_wsConnection\<close> is the value of \<open>wsConnection\<close> inside \<open>initializeWebSocket\<close>:
  that function is wrapped in \<open>useCallback\<close> with the dependency list
  \<open>[isAuthenticated, problem, WS_URL, handleWebSocketMessage]\<close>, which does not name
  \<open>wsConnection\<close>, so it keeps the \<open>wsConnection\<close> of the render in which one of the
  dependencies last changed; \<open>setWsConnection\<close> does not reach it.
  Socket handles are indices into \<open>sockets\<close>; timer handles are positive numbers in a
  browser, hence truthy, and a handle held in \<open>saveTimeoutRef\<close> is \<open>Some\<close>.
\<close>

record world =
  slug :: "string option"
  isAuthenticated :: bool
  problem :: "problem option"
  languages :: "language list"
  selectedLanguage :: "language option"
  code :: jstring
  output' :: "execution_result option"
  loading :: bool
  executing :: bool
  submitting :: bool
  saving :: bool
  savedAt :: "nat option"
  submissionStatus :: "string option"
  submissionId :: "nat option"
  wsConnection :: "nat option"
  isConnected :: bool
  saveTimeoutRef :: "nat option"
  codeInitializedRef :: bool
  currentCodeRef :: jstring
  currentProblemRef :: "problem option"
  memo_wsConnection :: "nat option"
  WS_URL :: jstring
  access_token :: "string option"
  now :: nat
  next_id :: nat
  timers :: "timer list"
  sockets :: "socket list"
  pending :: "(nat \<times> task) list"
  http :: "api_call list"
  sent :: "(nat \<times> exec_request) list"
  console :: "string list"
  alerts :: "string list"

section \<open>Browser primitives\<close>

text \<open>
  \<open>String.prototype.trim\<close> removes white space and line terminators from both ends:
  TAB, LF, VT, FF, CR, SPACE, U+00A0, U+1680, U+2000 to U+200A, U+2028, U+2029, U+202F,
  U+205F, U+3000 and U+FEFF, each a single code unit.
\<close>

definition is_space :: "nat \<Rightarrow> bool" where
  "is_space c =
     (c \<in> set [9, 10, 11, 12, 13, 32, 160, 5760, 8232, 8233, 8239, 8287, 12288, 65279] \<or>
      (8192 \<le> c \<and> c \<le> 8202))"

definition trim :: "jstring \<Rightarrow> jstring" where
  "trim s = rev (dropWhile is_space (rev (dropWhile is_space s)))"

definition console_log :: "string \<Rightarrow> world \<Rightarrow> world" where
  "console_log msg w = w\<lparr>console := console w @ [msg]\<rparr>"

definition setTimeout :: "timer_cb \<Rightarrow> nat \<Rightarrow> world \<Rightarrow> nat \<times> world" where
  "setTimeout cb delay w =
     (next_id w,
      w\<lparr>timers := timers w @ [\<lparr>t_id = next_id w, t_due = now w + delay, t_cb = cb\<rparr>],
        next_id := Suc (next_id w)\<rparr>)"

definition clearTimeout :: "nat \<Rightarrow> world \<Rightarrow> world" where
  "clearTimeout i w = w\<lparr>timers := filter (\<lambda>t. t_id t \<noteq> i) (timers w)\<rparr>"

text \<open>An HTTP call is put on the log and the rest of its caller is parked until it settles.\<close>

definition issue :: "api_call \<Rightarrow> task \<Rightarrow> world \<Rightarrow> world" where
  "issue c k w =
     w\<lparr>http := http w @ [c], pending := pending w @ [(next_id w, k)],
       next_id := Suc (next_id w)\<rparr>"

definition readyState_of :: "world \<Rightarrow> nat \<Rightarrow> readyState" where
  "readyState_of w i = (if i < length (sockets w) then s_state (sockets w ! i) else CLOSED)"

text \<open>
  \<open>WebSocket.send\<close> throws while the socket is connecting, queues the data while it is
  open, and drops the data silently once it is closing or closed. The result says whether
  it threw.
\<close>

definition ws_send :: "nat \<Rightarrow> exec_request \<Rightarrow> world \<Rightarrow> bool \<times> world" where
  "ws_send i rq w =
     (case readyState_of w i of
        CONNECTING \<Rightarrow> (True, w)
      | OPEN \<Rightarrow> (False, w\<lparr>sent := sent w @ [(i, rq)]\<rparr>)
      | _ \<Rightarrow> (False, w))"

text \<open>\<open>ws && ws.readyState === WebSocket.OPEN\<close> for a handler's local \<open>ws\<close>.\<close>

definition socket_open :: "world \<Rightarrow> nat option \<Rightarrow> bool" where
  "socket_open w ws = (case ws of None \<Rightarrow> False | Some i \<Rightarrow> readyState_of w i = OPEN)"

section \<open>Connection manager\<close>

definition problem_language_slug :: "world \<Rightarrow> string" where
  "problem_language_slug w =
     (case problem w of None \<Rightarrow> []
      | Some p \<Rightarrow> (case p_language p of None \<Rightarrow> [] | Some l \<Rightarrow> lang_slug l))"

definition handleWebSocketMessage :: "ws_message \<Rightarrow> world \<Rightarrow> world" where
  "handleWebSocketMessage m w =
     (if m_error m \<noteq> None \<and> m_error m \<noteq> Some [] then
        (console_log ''WebSocket error:'' w)
          \<lparr>output' := Some \<lparr>er_language = problem_language_slug w, er_version = ''*'',
              er_run = Some \<lparr>stdout = [], stderr = the (m_error m), exit_code = 1,
                signal = None, phase_output = []\<rparr>,
              er_compile = None\<rparr>,
           executing := False, submitting := False\<rparr>
      else
        (let w1 =
           (case m_result m of
              None \<Rightarrow> w
            | Some (r, c) \<Rightarrow>
                (let w2 = w\<lparr>output' := Some \<lparr>er_language = problem_language_slug w,
                            er_version = ''*'', er_run = r, er_compile = c\<rparr>\<rparr>
                 in if m_mode m = Some ''submit'' then
                      w2\<lparr>submissionStatus :=
                           (if m_status m = Some [] then None else m_status m),
                         submissionId :=
                           (if m_submission_id m = Some 0 then None else m_submission_id m)\<rparr>
                    else w2))
         in w1\<lparr>executing := False, submitting := False\<rparr>))"

text \<open>\<open>WS_URL.replace(/\/$/, "")\<close>.\<close>

definition strip_slash :: "jstring \<Rightarrow> jstring" where
  "strip_slash u = (if u \<noteq> [] \<and> last u = of_char (CHR ''/'') then butlast u else u)"

text \<open>The \<open>wsUrl\<close> of \<open>initializeWebSocket\<close>, from \<open>WS_URL\<close> and the stored token.\<close>

definition ws_address :: "world \<Rightarrow> ws_url" where
  "ws_address w =
     (let cleanUrl = strip_slash (WS_URL w)
      in case access_token w of
           None \<Rightarrow> Plain cleanUrl
         | Some t \<Rightarrow> if t = [] then Plain cleanUrl else WithToken cleanUrl t)"

definition initializeWebSocket :: "world \<Rightarrow> nat option \<times> world" where
  "initializeWebSocket w =
     (if (case memo_wsConnection w of None \<Rightarrow> False | Some i \<Rightarrow> readyState_of w i = OPEN) then
        (memo_wsConnection w, console_log ''Reusing existing WebSocket connection'' w)
      else if \<not> isAuthenticated w \<or> problem w = None then
        (None, console_log ''Cannot initialize WebSocket: not authenticated or problem not loaded'' w)
      else if WS_URL w = [] \<or> trim (WS_URL w) = [] then
        (None, console_log ''WebSocket URL is empty or invalid:'' w)
      else
        (let wsUrl = ws_address w
         in if wsUrl \<in> set [Plain [], Plain (js ''ws:///''), Plain (js ''wss:///'')] then
              (None, console_log ''Invalid WebSocket URL constructed:'' w)
            else
              (Some (length (sockets w)),
               (console_log ''Token present:''
                  (console_log ''Base WS_URL:''
                     (console_log ''Initializing WebSocket connection to:'' w)))
                 \<lparr>sockets := sockets w @ [\<lparr>s_url = wsUrl, s_state = CONNECTING\<rparr>],
                  wsConnection := Some (length (sockets w))\<rparr>)))"

text \<open>The socket's \<open>onopen\<close>, \<open>onerror\<close>, \<open>onclose\<close> and \<open>onmessage\<close> handlers.\<close>

definition ws_onopen :: "nat \<Rightarrow> world \<Rightarrow> world" where
  "ws_onopen i w =
     (if readyState_of w i = CONNECTING then
        (console_log ''WebSocket connected'' w)
          \<lparr>sockets := (sockets w)[i := (sockets w ! i)\<lparr>s_state := OPEN\<rparr>],
           isConnected := True\<rparr>
      else w)"

definition ws_onerror :: "nat \<Rightarrow> world \<Rightarrow> world" where
  "ws_onerror i w =
     (if i < length (sockets w) then
        (console_log ''WebSocket URL was:'' (console_log ''WebSocket error:'' w))
          \<lparr>isConnected := False\<rparr>
      else w)"

definition ws_onclose :: "nat \<Rightarrow> world \<Rightarrow> world" where
  "ws_onclose i w =
     (if i < length (sockets w) \<and> readyState_of w i \<noteq> CLOSED then
        (console_log ''WebSocket disconnected'' w)
          \<lparr>sockets := (sockets w)[i := (sockets w ! i)\<lparr>s_state := CLOSED\<rparr>],
           isConnected := False, wsConnection := None\<rparr>
      else w)"

definition ws_onmessage :: "nat \<Rightarrow> ws_message option \<Rightarrow> world \<Rightarrow> world" where
  "ws_onmessage i m w =
     (if readyState_of w i = OPEN then
        (case m of
           None \<Rightarrow> console_log ''Failed to parse WebSocket message:'' w
         | Some msg \<Rightarrow> handleWebSocketMessage msg w)
      else w)"


section \<open>Session orchestrator: run and submit\<close>

definition connect_failed :: "language \<Rightarrow> execution_result" where
  "connect_failed l =
     \<lparr>er_language = lang_slug l, er_version = ''*'',
      er_run = Some \<lparr>stdout = [],
        stderr = ''Failed to connect to execution service. Please try again.'',
        exit_code = 1, signal = None, phase_output = []\<rparr>,
      er_compile = None\<rparr>"

definition send_failed :: "language \<Rightarrow> string \<Rightarrow> execution_result" where
  "send_failed l msg =
     \<lparr>er_language = lang_slug l, er_version = ''*'',
      er_run = Some \<lparr>stdout = [], stderr = msg, exit_code = 1, signal = None,
        phase_output = []\<rparr>,
      er_compile = None\<rparr>"

definition request_of :: "run_closure \<Rightarrow> string \<Rightarrow> exec_request" where
  "request_of cl m =
     \<lparr>rq_language = lang_slug (rc_selectedLanguage cl), rq_version = ''*'',
      rq_code = rc_code cl, rq_problem_slug = p_slug (rc_problem cl), rq_mode = m\<rparr>"

text \<open>\<open>setOutput(null); setSubmissionStatus(null); setSubmissionId(null)\<close>.\<close>

definition clear_result :: "world \<Rightarrow> world" where
  "clear_result w = w\<lparr>output' := None, submissionStatus := None, submissionId := None\<rparr>"

text \<open>\<open>handleRunCode\<close>, from the \<open>try { ws.send(...) }\<close> on.\<close>

definition handleRunCode_send :: "run_closure \<Rightarrow> nat \<Rightarrow> world \<Rightarrow> world" where
  "handleRunCode_send cl i w =
     (case ws_send i (request_of cl ''run'') w of
        (False, w1) \<Rightarrow> w1
      | (True, w1) \<Rightarrow>
          (console_log ''Failed to send WebSocket message:'' w1)
            \<lparr>output' := Some (send_failed (rc_selectedLanguage cl)
                 ''Failed to send execution request''),
             executing := False\<rparr>)"

text \<open>\<open>handleRunCode\<close>, from the end of the 500 ms pause on.\<close>

definition handleRunCode_afterWait :: "run_closure \<Rightarrow> nat option \<Rightarrow> world \<Rightarrow> world" where
  "handleRunCode_afterWait cl ws w =
     (if \<not> socket_open w ws then
        w\<lparr>output' := Some (connect_failed (rc_selectedLanguage cl)), executing := False\<rparr>
      else handleRunCode_send cl (the ws) w)"

text \<open>\<open>handleRunCode\<close>, from \<open>setExecuting(true)\<close> on.\<close>

definition handleRunCode_afterSave :: "run_closure \<Rightarrow> world \<Rightarrow> world" where
  "handleRunCode_afterSave cl w =
     (let w1 = clear_result (w\<lparr>executing := True\<rparr>);
          (ws, w2) = initializeWebSocket w1
      in if \<not> socket_open w2 ws then
           snd (setTimeout (RunWait cl ws) 500
                  (console_log ''WebSocket not connected, waiting for connection...'' w2))
         else handleRunCode_send cl (the ws) w2)"

definition handleSubmitCode_send :: "run_closure \<Rightarrow> nat \<Rightarrow> world \<Rightarrow> world" where
  "handleSubmitCode_send cl i w =
     (case ws_send i (request_of cl ''submit'') w of
        (False, w1) \<Rightarrow> w1
      | (True, w1) \<Rightarrow>
          (console_log ''Failed to send WebSocket message:'' w1)
            \<lparr>output' := Some (send_failed (rc_selectedLanguage cl)
                 ''Failed to send submission request''),
             submitting := False\<rparr>)"

definition handleSubmitCode_afterWait :: "run_closure \<Rightarrow> nat option \<Rightarrow> world \<Rightarrow> world" where
  "handleSubmitCode_afterWait cl ws w =
     (if \<not> socket_open w ws then
        w\<lparr>output' := Some (connect_failed (rc_selectedLanguage cl)), submitting := False\<rparr>
      else handleSubmitCode_send cl (the ws) w)"

definition handleSubmitCode_afterSave :: "run_closure \<Rightarrow> world \<Rightarrow> world" where
  "handleSubmitCode_afterSave cl w =
     (let w1 = clear_result (w\<lparr>submitting := True\<rparr>);
          (ws, w2) = initializeWebSocket w1
      in if \<not> socket_open w2 ws then
           snd (setTimeout (SubmitWait cl ws) 500
                  (console_log ''WebSocket not connected, waiting for connection...'' w2))
         else handleSubmitCode_send cl (the ws) w2)"

section \<open>Auto-save scheduler\<close>

definition continue_caller :: "after \<Rightarrow> world \<Rightarrow> world" where
  "continue_caller k w =
     (case k of
        NoCaller \<Rightarrow> w
      | RunCaller cl \<Rightarrow> handleRunCode_afterSave cl w
      | SubmitCaller cl \<Rightarrow> handleSubmitCode_afterSave cl w)"

text \<open>
  \<open>saveAttempt(codeToSave, silent)\<close> up to its \<open>await attemptAPI.update\<close>. \<open>sel\<close> is
  the \<open>selectedLanguage\<close> of the render the function belongs to, \<open>k\<close> its caller's
  remainder. When the first test returns, the caller goes on at once.
\<close>

definition saveAttempt :: "jstring \<Rightarrow> bool \<Rightarrow> language option \<Rightarrow> after \<Rightarrow> world \<Rightarrow> world" where
  "saveAttempt codeToSave silent sel k w =
     (case (slug w, sel) of
        (Some s, Some l) \<Rightarrow>
          if \<not> isAuthenticated w \<or> problem w = None \<or> s = [] then continue_caller k w
          else issue (AttemptUpdate s codeToSave (Some (lang_id l))) (SaveAttemptK silent k)
                 (if silent then w else w\<lparr>saving := True\<rparr>)
      | _ \<Rightarrow> continue_caller k w)"

text \<open>\<open>saveAttempt\<close> after the awaited call: \<open>setSavedAt\<close> or \<open>catch\<close>, then \<open>finally\<close>.\<close>

definition saveAttempt_resume :: "bool \<Rightarrow> after \<Rightarrow> response \<Rightarrow> world \<Rightarrow> world" where
  "saveAttempt_resume silent k r w =
     (let w1 = (case r of
                  Fulfilled d \<Rightarrow> w\<lparr>savedAt := Some (now w)\<rparr>
                | Rejected \<Rightarrow> console_log ''Failed to save attempt:'' w);
          w2 = (if silent then w1 else w1\<lparr>saving := False\<rparr>)
      in continue_caller k w2)"

definition cancel_debounce :: "world \<Rightarrow> world" where
  "cancel_debounce w =
     (case saveTimeoutRef w of
        None \<Rightarrow> w
      | Some t \<Rightarrow> (clearTimeout t w)\<lparr>saveTimeoutRef := None\<rparr>)"

text \<open>\<open>handleCodeChange(value)\<close>; \<open>None\<close> is \<open>undefined\<close>.\<close>

definition handleCodeChange :: "jstring option \<Rightarrow> world \<Rightarrow> world" where
  "handleCodeChange v w =
     (let newCode = (case v of None \<Rightarrow> [] | Some s \<Rightarrow> s);
          w1 = w\<lparr>code := newCode, currentCodeRef := newCode\<rparr>;
          w2 = (case saveTimeoutRef w1 of None \<Rightarrow> w1 | Some t \<Rightarrow> clearTimeout t w1)
      in if isAuthenticated w2 \<and> codeInitializedRef w2 then
           (case setTimeout (DebouncedSave newCode (selectedLanguage w)) 2000 w2 of
              (t, w3) \<Rightarrow> w3\<lparr>saveTimeoutRef := Some t\<rparr>)
         else w2)"

definition handleRunCode :: "world \<Rightarrow> world" where
  "handleRunCode w =
     (case (selectedLanguage w, problem w) of
        (Some l, Some p) \<Rightarrow>
          (let cl = \<lparr>rc_code = code w, rc_selectedLanguage = l, rc_problem = p\<rparr>;
               w1 = cancel_debounce w
           in if isAuthenticated w1 \<and> codeInitializedRef w1 then
                saveAttempt (code w) True (selectedLanguage w) (RunCaller cl) w1
              else handleRunCode_afterSave cl w1)
      | _ \<Rightarrow> console_log ''Cannot run code: missing problem/language'' w)"

definition handleSubmitCode :: "world \<Rightarrow> world" where
  "handleSubmitCode w =
     (case (selectedLanguage w, problem w) of
        (Some l, Some p) \<Rightarrow>
          if \<not> isAuthenticated w then
            w\<lparr>alerts := alerts w @ [''Please log in to submit your code'']\<rparr>
          else
            (let cl = \<lparr>rc_code = code w, rc_selectedLanguage = l, rc_problem = p\<rparr>;
                 w1 = cancel_debounce w
             in if codeInitializedRef w1 then
                  saveAttempt (code w) True (selectedLanguage w) (SubmitCaller cl) w1
                else handleSubmitCode_afterSave cl w1)
      | _ \<Rightarrow> console_log ''Cannot submit code: missing problem/language'' w)"

text \<open>
  The two buttons are rendered once the page has loaded a problem, with these
  \<open>disabled\<close> attributes; a click on a disabled button calls nothing.
\<close>

definition page_shown :: "world \<Rightarrow> bool" where
  "page_shown w = (\<not> loading w \<and> problem w \<noteq> None)"

definition run_disabled :: "world \<Rightarrow> bool" where
  "run_disabled w = (executing w \<or> submitting w \<or> selectedLanguage w = None)"

definition submit_disabled :: "world \<Rightarrow> bool" where
  "submit_disabled w =
     (executing w \<or> submitting w \<or> selectedLanguage w = None \<or> \<not> isAuthenticated w)"

definition click_run :: "world \<Rightarrow> world" where
  "click_run w = (if page_shown w \<and> \<not> run_disabled w then handleRunCode w else w)"

definition click_submit :: "world \<Rightarrow> world" where
  "click_submit w = (if page_shown w \<and> \<not> submit_disabled w then handleSubmitCode w else w)"

section \<open>Session orchestrator: language switch and unmount\<close>

definition set_code :: "jstring \<Rightarrow> world \<Rightarrow> world" where
  "set_code c w = w\<lparr>code := c, currentCodeRef := c\<rparr>"

text \<open>\<open>handleLanguageChange\<close> from step 2 (\<open>setSelectedLanguage\<close>) to its next \<open>await\<close>.\<close>

definition handleLanguageChange_step2 :: "string \<Rightarrow> language \<Rightarrow> world \<Rightarrow> world" where
  "handleLanguageChange_step2 s newLanguage w =
     (let w1 = w\<lparr>selectedLanguage := Some newLanguage\<rparr>
      in if isAuthenticated w1 then
           issue (AttemptGet s (lang_id newLanguage)) (LangAttemptK s newLanguage) w1
         else
           issue (GetBoilerplate s (lang_slug newLanguage)) (LangBoilerAnonK s newLanguage) w1)"

text \<open>\<open>handleLanguageChange(languageId)\<close> up to its first \<open>await\<close>.\<close>

definition handleLanguageChange :: "nat \<Rightarrow> world \<Rightarrow> world" where
  "handleLanguageChange languageId w =
     (case (find (\<lambda>l. lang_id l = languageId) (languages w), slug w) of
        (Some newLanguage, Some s) \<Rightarrow>
          if s = [] then w
          else if isAuthenticated w \<and> selectedLanguage w \<noteq> None \<and> trim (code w) \<noteq> [] then
            issue (AttemptUpdate s (code w) (Some (lang_id (the (selectedLanguage w)))))
              (LangSaveK s newLanguage) w
          else handleLanguageChange_step2 s newLanguage w
      | _ \<Rightarrow> w)"

text \<open>The remainders of \<open>handleLanguageChange\<close> after each awaited call.\<close>

definition lang_after_save :: "string \<Rightarrow> language \<Rightarrow> response \<Rightarrow> world \<Rightarrow> world" where
  "lang_after_save s newLanguage r w =
     handleLanguageChange_step2 s newLanguage
       (case r of
          Rejected \<Rightarrow> console_log ''Failed to save current code:'' w
        | Fulfilled d \<Rightarrow> w)"

definition lang_after_attempt :: "string \<Rightarrow> language \<Rightarrow> response \<Rightarrow> world \<Rightarrow> world" where
  "lang_after_attempt s newLanguage r w =
     (case r of
        Fulfilled d \<Rightarrow>
          if trim (r_code d) \<noteq> [] then set_code (r_code d) w
          else issue (GetBoilerplate s (lang_slug newLanguage)) (LangBoilerTryK s newLanguage) w
      | Rejected \<Rightarrow>
          issue (GetBoilerplate s (lang_slug newLanguage)) (LangBoilerFallbackK s newLanguage)
            (console_log ''Failed to load saved code:'' w))"

definition lang_after_boiler_try :: "string \<Rightarrow> language \<Rightarrow> response \<Rightarrow> world \<Rightarrow> world" where
  "lang_after_boiler_try s newLanguage r w =
     (case r of
        Fulfilled d \<Rightarrow> set_code (r_boilerplate d) w
      | Rejected \<Rightarrow>
          issue (GetBoilerplate s (lang_slug newLanguage)) (LangBoilerFallbackK s newLanguage)
            (console_log ''Failed to load saved code:'' w))"

definition lang_after_boiler_last :: "language \<Rightarrow> response \<Rightarrow> world \<Rightarrow> world" where
  "lang_after_boiler_last newLanguage r w =
     (case r of
        Fulfilled d \<Rightarrow> set_code (r_boilerplate d) w
      | Rejected \<Rightarrow>
          set_code (lang_boilerplate newLanguage)
            (console_log ''Failed to fetch boilerplate:'' w))"

text \<open>
  The cleanup returned by the loading effect. \<open>currentProblem.language?.id || undefined\<close>
  is \<open>None\<close> for a problem without a language and for the id 0.
\<close>

definition locked_language_id :: "problem \<Rightarrow> nat option" where
  "locked_language_id p =
     (case p_language p of
        None \<Rightarrow> None
      | Some l \<Rightarrow> if lang_id l = 0 then None else Some (lang_id l))"

definition unmount :: "world \<Rightarrow> world" where
  "unmount w =
     (let w1 = cancel_debounce w
      in case (slug w1, currentProblemRef w1) of
           (Some s, Some p) \<Rightarrow>
             if isAuthenticated w1 \<and> codeInitializedRef w1 \<and> currentCodeRef w1 \<noteq> [] \<and> s \<noteq> []
             then issue (AttemptUpdate s (currentCodeRef w1) (locked_language_id p))
                    UnmountSaveK w1
             else w1
         | _ \<Rightarrow> w1)"

definition unmount_after_save :: "response \<Rightarrow> world \<Rightarrow> world" where
  "unmount_after_save r w =
     (case r of Rejected \<Rightarrow> console_log ''console.error'' w | Fulfilled d \<Rightarrow> w)"

section \<open>The event loop\<close>

definition run_callback :: "timer_cb \<Rightarrow> world \<Rightarrow> world" where
  "run_callback cb w =
     (case cb of
        DebouncedSave c sel \<Rightarrow> saveAttempt c False sel NoCaller w
      | RunWait cl ws \<Rightarrow> handleRunCode_afterWait cl ws w
      | SubmitWait cl ws \<Rightarrow> handleSubmitCode_afterWait cl ws w)"

text \<open>A pending timer fires: it leaves the timer table and its callback runs.\<close>

definition fire :: "timer \<Rightarrow> world \<Rightarrow> world" where
  "fire t w =
     (if t \<in> set (timers w) then
        run_callback (t_cb t)
          (w\<lparr>timers := filter (\<lambda>x. t_id x \<noteq> t_id t) (timers w), now := max (now w) (t_due t)\<rparr>)
      else w)"

text \<open>
  \<open>d\<close> milliseconds pass with no other event: the timers that fall due fire, earliest
  first.
\<close>

definition advance :: "nat \<Rightarrow> world \<Rightarrow> world" where
  "advance d w =
     (let target = now w + d;
          due = sort_key t_due (filter (\<lambda>t. t_due t \<le> target) (timers w))
      in (foldl (\<lambda>v t. fire t v) w due)\<lparr>now := target\<rparr>)"

definition resume :: "task \<Rightarrow> response \<Rightarrow> world \<Rightarrow> world" where
  "resume k r w =
     (case k of
        SaveAttemptK silent a \<Rightarrow> saveAttempt_resume silent a r w
      | LangSaveK s l \<Rightarrow> lang_after_save s l r w
      | LangAttemptK s l \<Rightarrow> lang_after_attempt s l r w
      | LangBoilerTryK s l \<Rightarrow> lang_after_boiler_try s l r w
      | LangBoilerFallbackK s l \<Rightarrow> lang_after_boiler_last l r w
      | LangBoilerAnonK s l \<Rightarrow> lang_after_boiler_last l r w
      | UnmountSaveK \<Rightarrow> unmount_after_save r w)"

text \<open>The awaited HTTP call \<open>i\<close> settles with \<open>r\<close>.\<close>

definition settle :: "nat \<Rightarrow> response \<Rightarrow> world \<Rightarrow> world" where
  "settle i r w =
     (case map_of (pending w) i of
        None \<Rightarrow> w
      | Some k \<Rightarrow> resume k r (w\<lparr>pending := filter (\<lambda>q. fst q \<noteq> i) (pending w)\<rparr>))"

datatype event =
    CodeChange "jstring option"
  | ClickRun
  | ClickSubmit
  | SelectLanguage nat
  | Elapse nat
  | Settle nat response
  | WsOpen nat
  | WsError nat
  | WsClose nat
  | WsMessage nat "ws_message option"
  | Unmount

text \<open>
  The editor is part of the loaded page; the language selector is rendered only for a
  problem without a locked language.
\<close>

definition step :: "event \<Rightarrow> world \<Rightarrow> world" where
  "step e w =
     (case e of
        CodeChange v \<Rightarrow> if page_shown w then handleCodeChange v w else w
      | ClickRun \<Rightarrow> click_run w
      | ClickSubmit \<Rightarrow> click_submit w
      | SelectLanguage i \<Rightarrow>
          if page_shown w \<and> (case problem w of None \<Rightarrow> False | Some p \<Rightarrow> p_language p = None)
          then handleLanguageChange i w else w
      | Elapse d \<Rightarrow> advance d w
      | Settle i r \<Rightarrow> settle i r w
      | WsOpen i \<Rightarrow> ws_onopen i w
      | WsError i \<Rightarrow> ws_onerror i w
      | WsClose i \<Rightarrow> ws_onclose i w
      | WsMessage i m \<Rightarrow> ws_onmessage i m w
      | Unmount \<Rightarrow> unmount w)"

fun run_events :: "event list \<Rightarrow> world \<Rightarrow> world" where
  "run_events [] w = w"
| "run_events (e # es) w = run_events es (step e w)"

section \<open>HTTP client: the response interceptor\<close>












section \<open>Scenarios\<close>

text \<open>
  A first change of the editor content followed by further changes, each \<open>d\<close> milliseconds
  after the one before it.
\<close>

fun edits :: "(nat \<times> jstring option) list \<Rightarrow> world \<Rightarrow> world" where
  "edits [] w = w"
| "edits ((d, v) # es) w = edits es (handleCodeChange v (advance d w))"

definition editor_value :: "jstring option \<Rightarrow> jstring" where
  "editor_value v = (case v of None \<Rightarrow> [] | Some c \<Rightarrow> c)"

text \<open>The one debounce timer is armed for \<open>c\<close> and nothing else is scheduled.\<close>

definition armed :: "language option \<Rightarrow> jstring \<Rightarrow> world \<Rightarrow> bool" where
  "armed sel c w =
     (case timers w of
        [t] \<Rightarrow> saveTimeoutRef w = Some (t_id t) \<and> t_due t = now w + 2000 \<and>
               t_cb t = DebouncedSave c sel
      | _ \<Rightarrow> False)"

text \<open>The session is in the spec's \<open>Idle\<close> mode.\<close>

definition idle :: "world \<Rightarrow> bool" where
  "idle w = (\<not> executing w \<and> \<not> submitting w)"

definition is_debounce :: "timer \<Rightarrow> bool" where
  "is_debounce t = (case t_cb t of DebouncedSave c sel \<Rightarrow> True | _ \<Rightarrow> False)"

text \<open>Every pending debounce timer is the one whose handle \<open>saveTimeoutRef\<close> holds.\<close>

definition debounce_tracked :: "world \<Rightarrow> bool" where
  "debounce_tracked w = (\<forall>t \<in> set (timers w). is_debounce t \<longrightarrow> saveTimeoutRef w = Some (t_id t))"

text \<open>A multi-language problem, two languages, and a loaded, authenticated session.\<close>

definition python :: language where
  "python = \<lparr>lang_id = 1, lang_name = ''Python'', lang_slug = ''python'',
     lang_boilerplate = js ''pass''\<rparr>"

definition javascript :: language where
  "javascript = \<lparr>lang_id = 2, lang_name = ''JavaScript'', lang_slug = ''javascript'',
     lang_boilerplate = js ''//''\<rparr>"

definition two_sum :: problem where
  "two_sum = \<lparr>p_slug = ''two-sum'', p_language = None\<rparr>"

definition session0 :: world where
  "session0 =
     \<lparr>slug = Some ''two-sum'', isAuthenticated = True, problem = Some two_sum,
      languages = [python, javascript], selectedLanguage = Some python,
      code = js ''pass'',
      output' = None, loading = False, executing = False, submitting = False,
      saving = False, savedAt = None, submissionStatus = None, submissionId = None,
      wsConnection = None, isConnected = False, saveTimeoutRef = None,
      codeInitializedRef = True, currentCodeRef = js ''pass'',
      currentProblemRef = Some two_sum, memo_wsConnection = None,
      WS_URL = js ''ws://localhost:8080/ws/'', access_token = Some ''jwt'',
      now = 0,
      next_id = 1, timers = [], sockets = [], pending = [], http = [], sent = [],
      console = [], alerts = []\<rparr>"

text \<open>
  \<open>initializeWebSocket\<close> gets as far as \<open>new WebSocket\<close>: the user is authenticated,
  a problem is loaded and the address passes the tests.
\<close>

definition can_connect :: "world \<Rightarrow> bool" where
  "can_connect w =
     (isAuthenticated w \<and> problem w \<noteq> None \<and> WS_URL w \<noteq> [] \<and> trim (WS_URL w) \<noteq> [] \<and>
      ws_address w \<notin> set [Plain [], Plain (js ''ws:///''), Plain (js ''wss:///'')])"

definition reuses :: "world \<Rightarrow> bool" where
  "reuses w = socket_open w (memo_wsConnection w)"

definition saved :: response where
  "saved = Fulfilled \<lparr>r_code = [], r_boilerplate = []\<rparr>"

text \<open>
  Run is clicked and, while its silent save is still awaited, Submit is clicked; both saves
  settle, both sockets open, and the two 500 ms pauses end. No message arrives.
\<close>

definition double_click :: "event list" where
  "double_click =
     [ClickRun, ClickSubmit, Settle 1 saved, Settle 2 saved, WsOpen 0, WsOpen 1, Elapse 500]"

text \<open>
  The user types, then picks JavaScript before the two seconds are over; the switch's save
  settles and two seconds pass.
\<close>

definition typed :: world where
  "typed = step (CodeChange (Some (js ''x = 1''))) session0"

definition switched :: world where
  "switched = step (SelectLanguage 2) typed"

definition switched_later :: world where
  "switched_later = run_events [Settle 2 saved, Elapse 2000] switched"

text \<open>
  A run whose socket is not open after 500 ms, and a second run while that socket is still
  connecting; then both sockets open.
\<close>

definition second_run :: world where
  "second_run = run_events [ClickRun, Settle 1 saved, Elapse 500, ClickRun, Settle 3 saved] session0"

definition both_open :: world where
  "both_open = run_events [WsOpen 0, WsOpen 1] second_run"


text \<open>
  A complete run: the save settles, the socket opens within the pause, the request goes out
  and its result arrives. Then a second complete run.
\<close>

definition passed :: ws_message where
  "passed =
     \<lparr>m_error = None,
      m_result = Some (Some \<lparr>stdout = ''ok'', stderr = [], exit_code = 0, signal = None,
                              phase_output = ''ok''\<rparr>, None),
      m_mode = None, m_status = None, m_submission_id = None\<rparr>"

definition first_run_done :: world where
  "first_run_done =
     run_events [ClickRun, Settle 1 saved, WsOpen 0, Elapse 500, WsMessage 0 (Some passed)]
       session0"

definition second_run_done :: world where
  "second_run_done =
     run_events [ClickRun, Settle 3 saved, WsOpen 1, Elapse 500, WsMessage 1 (Some passed)]
       first_run_done"




text \<open>
  \<open>w'\<close> keeps the handle in \<open>saveTimeoutRef\<close> and has no debounce timer that \<open>w\<close> did
  not have.
\<close>

definition extends :: "world \<Rightarrow> world \<Rightarrow> bool" where
  "extends w w' =
     (saveTimeoutRef w' = saveTimeoutRef w \<and>
      (\<forall>t \<in> set (timers w'). t \<in> set (timers w) \<or> \<not> is_debounce t))"


text \<open>Run was clicked, the silent save has settled, and the new socket is still connecting.\<close>

definition waiting :: world where
  "waiting = run_events [ClickRun, Settle 1 saved] session0"


text \<open>The same session on a problem locked to JavaScript.\<close>

definition locked_problem :: problem where
  "locked_problem = \<lparr>p_slug = ''two-sum'', p_language = Some javascript\<rparr>"

definition locked_session :: world where
  "locked_session =
     session0\<lparr>problem := Some locked_problem, currentProblemRef := Some locked_problem,
       selectedLanguage := Some javascript\<rparr>"

section \<open>Basic facts\<close>

lemmas handler_defs =
  step_def click_run_def click_submit_def page_shown_def run_disabled_def submit_disabled_def
  handleRunCode_def handleSubmitCode_def handleCodeChange_def handleLanguageChange_def
  handleLanguageChange_step2_def cancel_debounce_def saveAttempt_def saveAttempt_resume_def
  continue_caller_def handleRunCode_afterSave_def handleSubmitCode_afterSave_def
  handleRunCode_afterWait_def handleSubmitCode_afterWait_def handleRunCode_send_def
  handleSubmitCode_send_def ws_send_def socket_open_def readyState_of_def clear_result_def
  initializeWebSocket_def ws_address_def strip_slash_def trim_def is_space_def js_def
  console_log_def setTimeout_def
  clearTimeout_def issue_def settle_def resume_def advance_def fire_def run_callback_def
  ws_onopen_def ws_onclose_def ws_onerror_def ws_onmessage_def request_of_def unmount_def
  lang_after_save_def lang_after_attempt_def lang_after_boiler_try_def
  lang_after_boiler_last_def unmount_after_save_def set_code_def locked_language_id_def
  session0_def python_def javascript_def two_sum_def saved_def Let_def

lemma initializeWebSocket_frame:
  "sent (snd (initializeWebSocket w)) = sent w"
  "http (snd (initializeWebSocket w)) = http w"
  "timers (snd (initializeWebSocket w)) = timers w"
  "pending (snd (initializeWebSocket w)) = pending w"
  "next_id (snd (initializeWebSocket w)) = next_id w"
  "now (snd (initializeWebSocket w)) = now w"
  "executing (snd (initializeWebSocket w)) = executing w"
  "submitting (snd (initializeWebSocket w)) = submitting w"
  "output' (snd (initializeWebSocket w)) = output' w"
  "saveTimeoutRef (snd (initializeWebSocket w)) = saveTimeoutRef w"
  by (simp_all add: initializeWebSocket_def console_log_def Let_def)

lemma clear_result_frame:
  "timers (clear_result w) = timers w" "next_id (clear_result w) = next_id w"
  "now (clear_result w) = now w" "sent (clear_result w) = sent w"
  "http (clear_result w) = http w" "pending (clear_result w) = pending w"
  "executing (clear_result w) = executing w" "submitting (clear_result w) = submitting w"
  "saveTimeoutRef (clear_result w) = saveTimeoutRef w"
  by (simp_all add: clear_result_def)

lemma cancel_debounce_timers:
  "timers (cancel_debounce w) = filter (\<lambda>t. Some (t_id t) \<noteq> saveTimeoutRef w) (timers w)"
  "saveTimeoutRef (cancel_debounce w) = None"
  by (auto simp: cancel_debounce_def clearTimeout_def split: option.splits intro: filter_cong)

lemma cancel_debounce_frame:
  "http (cancel_debounce w) = http w" "sent (cancel_debounce w) = sent w"
  "pending (cancel_debounce w) = pending w" "next_id (cancel_debounce w) = next_id w"
  "isAuthenticated (cancel_debounce w) = isAuthenticated w"
  "codeInitializedRef (cancel_debounce w) = codeInitializedRef w"
  "problem (cancel_debounce w) = problem w" "slug (cancel_debounce w) = slug w"
  "executing (cancel_debounce w) = executing w" "submitting (cancel_debounce w) = submitting w"
  "sockets (cancel_debounce w) = sockets w" "saving (cancel_debounce w) = saving w"
  "currentCodeRef (cancel_debounce w) = currentCodeRef w"
  "currentProblemRef (cancel_debounce w) = currentProblemRef w"
  "code (cancel_debounce w) = code w" "selectedLanguage (cancel_debounce w) = selectedLanguage w"
  by (simp_all add: cancel_debounce_def clearTimeout_def split: option.splits)

lemma handleRunCode_send_open:
  "readyState_of w i = OPEN \<Longrightarrow>
   handleRunCode_send cl i w = w\<lparr>sent := sent w @ [(i, request_of cl ''run'')]\<rparr>"
  by (simp add: handleRunCode_send_def ws_send_def)

lemma handleSubmitCode_send_open:
  "readyState_of w i = OPEN \<Longrightarrow>
   handleSubmitCode_send cl i w = w\<lparr>sent := sent w @ [(i, request_of cl ''submit'')]\<rparr>"
  by (simp add: handleSubmitCode_send_def ws_send_def)

text \<open>While a request is marked as running or submitting, both buttons are dead.\<close>

lemma click_while_busy:
  "executing w \<or> submitting w \<Longrightarrow> click_run w = w \<and> click_submit w = w"
  by (auto simp: click_run_def click_submit_def run_disabled_def submit_disabled_def)

text \<open>A message from the execution service ends the running or submitting mode.\<close>

lemma message_returns_to_idle: "idle (handleWebSocketMessage m w)"
  by (simp add: idle_def handleWebSocketMessage_def console_log_def Let_def
      split: option.splits prod.splits)

section \<open>The debounce timer is the one in \<open>saveTimeoutRef\<close>\<close>

text \<open>
  \<open>debounce_tracked\<close> holds in a session without timers and is kept by every event, so it
  holds in every state the page can reach.
\<close>

lemma extends_refl: "extends w w"
  by (simp add: extends_def)

lemma extends_trans: "extends a b \<Longrightarrow> extends b c \<Longrightarrow> extends a c"
  by (auto simp: extends_def)

lemma tracked_extends: "debounce_tracked w \<Longrightarrow> extends w w' \<Longrightarrow> debounce_tracked w'"
  by (auto simp: debounce_tracked_def extends_def)

lemma extends_initializeWebSocket: "extends w (snd (initializeWebSocket w))"
  by (simp add: extends_def initializeWebSocket_def console_log_def Let_def)

lemma extends_sends:
  "extends w (handleRunCode_send cl i w)" "extends w (handleSubmitCode_send cl i w)"
  by (simp_all add: extends_def handleRunCode_send_def handleSubmitCode_send_def ws_send_def
      console_log_def split: readyState.splits)

lemma extends_afterWait:
  "extends w (handleRunCode_afterWait cl ws w)" "extends w (handleSubmitCode_afterWait cl ws w)"
  using extends_sends
  by (auto simp: handleRunCode_afterWait_def handleSubmitCode_afterWait_def extends_def)

lemma extends_wait:
  "extends w (snd (setTimeout (RunWait cl ws) d (console_log m w)))"
  "extends w (snd (setTimeout (SubmitWait cl ws) d (console_log m w)))"
  by (auto simp: extends_def setTimeout_def console_log_def is_debounce_def)

lemma extends_flag:
  "extends w (clear_result (w\<lparr>executing := True\<rparr>))"
  "extends w (clear_result (w\<lparr>submitting := True\<rparr>))"
  by (simp_all add: extends_def clear_result_def)

lemma extends_afterSave:
  "extends w (handleRunCode_afterSave cl w)" "extends w (handleSubmitCode_afterSave cl w)"
proof -
  let ?r = "clear_result (w\<lparr>executing := True\<rparr>)"
  let ?s = "clear_result (w\<lparr>submitting := True\<rparr>)"
  have r: "extends w (snd (initializeWebSocket ?r))"
    using extends_trans [OF extends_flag(1) extends_initializeWebSocket] .
  have s: "extends w (snd (initializeWebSocket ?s))"
    using extends_trans [OF extends_flag(2) extends_initializeWebSocket] .
  show "extends w (handleRunCode_afterSave cl w)"
    using extends_trans [OF r extends_sends(1)] extends_trans [OF r extends_wait(1)]
    by (simp add: handleRunCode_afterSave_def Let_def split_def)
  show "extends w (handleSubmitCode_afterSave cl w)"
    using extends_trans [OF s extends_sends(2)] extends_trans [OF s extends_wait(2)]
    by (simp add: handleSubmitCode_afterSave_def Let_def split_def)
qed

lemma extends_continue: "extends w (continue_caller k w)"
  by (cases k) (simp_all add: continue_caller_def extends_refl extends_afterSave)

lemma extends_issue: "extends w (issue c k w)"
  by (simp add: extends_def issue_def)

lemma extends_saveAttempt: "extends w (saveAttempt c silent sel k w)"
proof -
  have "extends w (issue a b (w\<lparr>saving := True\<rparr>))" for a b
    by (simp add: extends_def issue_def)
  then show ?thesis
    by (auto simp: saveAttempt_def extends_continue extends_issue split: option.splits)
qed

lemma extends_resume: "extends w (resume k r w)"
proof -
  have a: "extends w v \<Longrightarrow> extends w (continue_caller c v)" for v c
    using extends_trans [OF _ extends_continue] .
  have b: "extends w v \<Longrightarrow> extends w (issue c t v)" for v c t
    using extends_trans [OF _ extends_issue] .
  have c: "extends w (w\<lparr>savedAt := x\<rparr>)" "extends w (console_log m w)"
    "extends w (w\<lparr>savedAt := x, saving := y\<rparr>)" "extends w ((console_log m w)\<lparr>saving := y\<rparr>)"
    "extends w (set_code z w)" "extends w (set_code z (console_log m w))"
    "extends w (w\<lparr>selectedLanguage := l\<rparr>)" "extends w ((console_log m w)\<lparr>selectedLanguage := l\<rparr>)"
    for x m y z l
    by (simp_all add: extends_def console_log_def set_code_def)
  show ?thesis
    by (cases k; cases r)
      (simp_all add: resume_def saveAttempt_resume_def lang_after_save_def
        lang_after_attempt_def lang_after_boiler_try_def lang_after_boiler_last_def
        unmount_after_save_def handleLanguageChange_step2_def Let_def a b c extends_refl
        extends_issue)
qed

lemma extends_settle: "extends w (settle i r w)"
proof -
  have "extends w (w\<lparr>pending := p\<rparr>)" for p by (simp add: extends_def)
  then show ?thesis
    using extends_trans [OF _ extends_resume]
    by (simp add: settle_def extends_refl split: option.splits)
qed

lemma extends_fire: "extends w (fire t w)"
proof -
  let ?v = "w\<lparr>timers := filter (\<lambda>x. t_id x \<noteq> t_id t) (timers w), now := max (now w) (t_due t)\<rparr>"
  have v: "extends w ?v" by (simp add: extends_def)
  have "extends ?v (run_callback (t_cb t) ?v)"
    by (cases "t_cb t")
      (simp_all add: run_callback_def extends_saveAttempt extends_afterWait)
  then show ?thesis
    using extends_trans [OF v] by (simp add: fire_def extends_refl)
qed

lemma extends_fold: "extends w (foldl (\<lambda>v t. fire t v) w ts)"
proof (induction ts arbitrary: w)
  case Nil
  show ?case by (simp add: extends_refl)
next
  case (Cons t ts)
  show ?case
    using extends_trans [OF extends_fire Cons.IH] by simp
qed

lemma extends_advance: "extends w (advance d w)"
proof -
  have "extends w v \<Longrightarrow> extends w (v\<lparr>now := n\<rparr>)" for v n
    by (simp add: extends_def)
  then show ?thesis
    by (simp add: advance_def Let_def extends_fold)
qed

lemma extends_ws:
  "extends w (ws_onopen i w)" "extends w (ws_onerror i w)" "extends w (ws_onclose i w)"
  "extends w (ws_onmessage i m w)"
  by (simp_all add: extends_def ws_onopen_def ws_onerror_def ws_onclose_def ws_onmessage_def
      handleWebSocketMessage_def console_log_def Let_def split: option.splits prod.splits)

lemma extends_handleLanguageChange: "extends w (handleLanguageChange i w)"
proof -
  have "extends w (issue c k (w\<lparr>selectedLanguage := l\<rparr>))" for c k l
    by (simp add: extends_def issue_def)
  then show ?thesis
    by (auto simp: handleLanguageChange_def handleLanguageChange_step2_def Let_def
        extends_refl extends_issue split: option.splits)
qed

lemma tracked_cancel: "debounce_tracked w \<Longrightarrow> debounce_tracked (cancel_debounce w)"
  by (auto simp: debounce_tracked_def cancel_debounce_def clearTimeout_def split: option.splits)

lemma tracked_handleCodeChange: "debounce_tracked w \<Longrightarrow> debounce_tracked (handleCodeChange v w)"
  by (auto simp: debounce_tracked_def handleCodeChange_def clearTimeout_def setTimeout_def
      Let_def split: option.splits)

lemma tracked_handleRunCode: "debounce_tracked w \<Longrightarrow> debounce_tracked (handleRunCode w)"
  using tracked_extends [OF tracked_cancel extends_saveAttempt]
    tracked_extends [OF tracked_cancel extends_afterSave(1)]
    tracked_extends [OF _ extends_refl]
  by (auto simp: handleRunCode_def Let_def console_log_def debounce_tracked_def
      split: option.splits)

lemma tracked_handleSubmitCode: "debounce_tracked w \<Longrightarrow> debounce_tracked (handleSubmitCode w)"
  using tracked_extends [OF tracked_cancel extends_saveAttempt]
    tracked_extends [OF tracked_cancel extends_afterSave(2)]
  by (auto simp: handleSubmitCode_def Let_def console_log_def debounce_tracked_def
      split: option.splits)

lemma tracked_unmount: "debounce_tracked w \<Longrightarrow> debounce_tracked (unmount w)"
  using tracked_extends [OF tracked_cancel extends_issue]
  by (auto simp: unmount_def Let_def tracked_cancel split: option.splits)

lemma tracked_step: "debounce_tracked w \<Longrightarrow> debounce_tracked (step e w)"
  by (cases e)
    (auto simp: step_def click_run_def click_submit_def tracked_handleCodeChange
      tracked_handleRunCode tracked_handleSubmitCode tracked_unmount
      intro: tracked_extends extends_handleLanguageChange extends_advance extends_settle extends_ws)

lemma tracked_run_events: "debounce_tracked w \<Longrightarrow> debounce_tracked (run_events es w)"
  by (induction es arbitrary: w) (simp_all add: tracked_step)

lemma tracked_session0: "debounce_tracked session0"
  by (simp add: debounce_tracked_def session0_def)

section \<open>Debounce coalescing\<close>

lemma advance_quiet:
  "\<forall>t \<in> set (timers w). now w + d < t_due t \<Longrightarrow> advance d w = w\<lparr>now := now w + d\<rparr>"
proof -
  assume a: "\<forall>t \<in> set (timers w). now w + d < t_due t"
  have "filter (\<lambda>t. t_due t \<le> now w + d) (timers w) = []"
    using a by (auto simp: filter_empty_conv)
  then show ?thesis by (simp add: advance_def)
qed

lemma handleCodeChange_arms:
  assumes "isAuthenticated w" "codeInitializedRef w"
    and "timers w = [] \<or> (\<exists>t. timers w = [t] \<and> saveTimeoutRef w = Some (t_id t))"
  shows "armed (selectedLanguage w) (editor_value v) (handleCodeChange v w)"
  using assms
  by (auto simp: handleCodeChange_def armed_def editor_value_def setTimeout_def clearTimeout_def
      Let_def split: option.splits)

lemma handleCodeChange_keeps:
  "isAuthenticated (handleCodeChange v w) = isAuthenticated w"
  "codeInitializedRef (handleCodeChange v w) = codeInitializedRef w"
  "problem (handleCodeChange v w) = problem w"
  "slug (handleCodeChange v w) = slug w"
  "selectedLanguage (handleCodeChange v w) = selectedLanguage w"
  "http (handleCodeChange v w) = http w"
  by (simp_all add: handleCodeChange_def setTimeout_def clearTimeout_def Let_def
      split: option.splits prod.splits)

lemma armed_single:
  "armed sel c w \<Longrightarrow> \<exists>t. timers w = [t] \<and> saveTimeoutRef w = Some (t_id t) \<and>
     t_due t = now w + 2000 \<and> t_cb t = DebouncedSave c sel"
  by (auto simp: armed_def split: list.splits)

lemma edit_within_window:
  assumes "isAuthenticated w" "codeInitializedRef w" "armed sel c w" "d < 2000"
  shows "armed (selectedLanguage w) (editor_value v) (handleCodeChange v (advance d w))"
    and "http (handleCodeChange v (advance d w)) = http w"
proof -
  obtain t where t: "timers w = [t]" "saveTimeoutRef w = Some (t_id t)" "t_due t = now w + 2000"
    using armed_single [OF assms(3)] by blast
  have q: "advance d w = w\<lparr>now := now w + d\<rparr>"
    using t assms(4) by (intro advance_quiet) simp
  show "armed (selectedLanguage w) (editor_value v) (handleCodeChange v (advance d w))"
    using handleCodeChange_arms [of "w\<lparr>now := now w + d\<rparr>" v] assms(1,2) t by (simp add: q)
  show "http (handleCodeChange v (advance d w)) = http w"
    by (simp add: q handleCodeChange_keeps)
qed

lemma advance_keeps:
  assumes "armed sel c w" "d < 2000"
  shows "isAuthenticated (advance d w) = isAuthenticated w"
    "codeInitializedRef (advance d w) = codeInitializedRef w"
    "problem (advance d w) = problem w"
    "slug (advance d w) = slug w"
    "selectedLanguage (advance d w) = selectedLanguage w"
proof -
  obtain t where t: "timers w = [t]" "t_due t = now w + 2000"
    using armed_single [OF assms(1)] by blast
  have q: "advance d w = w\<lparr>now := now w + d\<rparr>"
    using t assms(2) by (intro advance_quiet) simp
  show "isAuthenticated (advance d w) = isAuthenticated w"
    "codeInitializedRef (advance d w) = codeInitializedRef w"
    "problem (advance d w) = problem w"
    "slug (advance d w) = slug w"
    "selectedLanguage (advance d w) = selectedLanguage w"
    by (simp_all add: q)
qed

lemma edits_within_window:
  assumes "isAuthenticated w" "codeInitializedRef w" "selectedLanguage w = sel" "armed sel c w"
    and "\<forall>e \<in> set es. fst e < 2000"
  shows "armed sel (last (c # map (editor_value \<circ> snd) es)) (edits es w) \<and>
         http (edits es w) = http w \<and> isAuthenticated (edits es w) \<and>
         problem (edits es w) = problem w \<and> slug (edits es w) = slug w"
  using assms
proof (induction es arbitrary: w c)
  case Nil
  then show ?case by simp
next
  case (Cons e es)
  obtain d v where e: "e = (d, v)" by (cases e)
  let ?w = "handleCodeChange v (advance d w)"
  have d: "d < 2000" using Cons.prems(5) e by simp
  have k: "isAuthenticated ?w" "codeInitializedRef ?w" "selectedLanguage ?w = sel"
    "problem ?w = problem w" "slug ?w = slug w"
    using Cons.prems(1-4) d by (simp_all add: handleCodeChange_keeps advance_keeps)
  have a: "armed sel (editor_value v) ?w" "http ?w = http w"
    using edit_within_window [OF Cons.prems(1,2,4) d, of v] Cons.prems(3) by simp_all
  have "\<forall>e \<in> set es. fst e < 2000" using Cons.prems(5) by simp
  from Cons.IH [OF k(1,2,3) a(1) this] a(2) k(4,5) show ?case
    by (simp add: e)
qed

lemma debounce_fires:
  assumes "isAuthenticated w" "problem w \<noteq> None" "slug w = Some s" "s \<noteq> []"
    "armed (Some l) c w" "2000 \<le> D"
  shows "http (advance D w) = http w @ [AttemptUpdate s c (Some (lang_id l))]"
proof -
  obtain t where t: "timers w = [t]" "t_due t = now w + 2000" "t_cb t = DebouncedSave c (Some l)"
    using armed_single [OF assms(5)] by blast
  have "filter (\<lambda>t. t_due t \<le> now w + D) (timers w) = [t]"
    using t assms(6) by simp
  then have "advance D w = (fire t w)\<lparr>now := now w + D\<rparr>"
    by (simp add: advance_def)
  then show ?thesis
    using t assms(1-4)
    by (simp add: fire_def run_callback_def saveAttempt_def issue_def)
qed

text \<open>
  Claim C4. The session is initialized and the user authenticated: the initialization flag
  is set, a problem with its slug is loaded and a language is selected, and no timer is
  pending. The editor content changes to \<open>v\<close> and then, for every entry \<open>(d, v')\<close> of
  \<open>es\<close>, to \<open>v'\<close> after a further \<open>d\<close> milliseconds, every \<open>d\<close> below the debounce
  delay of 2000. Then no save is issued during the sequence, and once 2000 milliseconds or
  more have passed after the last change exactly one save has been issued, carrying the
  content of the last change (under the selected language's id).
\<close>

theorem debounce_coalescing:
  assumes "isAuthenticated w" "codeInitializedRef w" "problem w \<noteq> None" "slug w = Some s"
    "s \<noteq> []" "selectedLanguage w = Some l" "timers w = []"
    and "\<forall>e \<in> set es. fst e < 2000" and "2000 \<le> D"
  shows "http (edits es (handleCodeChange v w)) = http w \<and>
     http (advance D (edits es (handleCodeChange v w))) =
       http w @ [AttemptUpdate s (last (map editor_value (v # map snd es))) (Some (lang_id l))]"
proof -
  let ?w = "handleCodeChange v w"
  have k: "isAuthenticated ?w" "codeInitializedRef ?w" "selectedLanguage ?w = Some l"
    using assms(1,2,6) by (simp_all add: handleCodeChange_keeps)
  have a: "armed (Some l) (editor_value v) ?w"
    using handleCodeChange_arms [OF assms(1,2), of v] assms(6,7) by simp
  note e = edits_within_window [OF k a assms(8)]
  have p: "problem (edits es ?w) \<noteq> None" "slug (edits es ?w) = Some s"
    using e assms(3,4) by (simp_all add: handleCodeChange_keeps)
  have l: "last (editor_value v # map (editor_value \<circ> snd) es) =
      last (map editor_value (v # map snd es))"
    by simp
  have "http (advance D (edits es ?w)) =
      http (edits es ?w) @ [AttemptUpdate s (last (editor_value v # map (editor_value \<circ> snd) es))
        (Some (lang_id l))]"
    using debounce_fires [OF _ p(1) p(2) assms(5) _ assms(9)] e by blast
  then show ?thesis
    using e by (simp only: l handleCodeChange_keeps)
qed

theorem debounce_coalescing_witness:
  "isAuthenticated session0 \<and> codeInitializedRef session0 \<and> problem session0 \<noteq> None \<and>
   slug session0 = Some ''two-sum'' \<and> selectedLanguage session0 = Some python \<and>
   timers session0 = [] \<and> (500::nat) < 2000 \<and> (1999::nat) < 2000 \<and>
   http (edits [(500, Some (js ''ab'')), (1999, Some (js ''abc''))]
          (handleCodeChange (Some (js ''a'')) session0)) = [] \<and>
   http (advance 2000 (edits [(500, Some (js ''ab'')), (1999, Some (js ''abc''))]
          (handleCodeChange (Some (js ''a'')) session0))) =
     [AttemptUpdate ''two-sum'' (js ''abc'') (Some 1)]"
proof -
  have h: "isAuthenticated session0" "codeInitializedRef session0" "problem session0 \<noteq> None"
    "slug session0 = Some ''two-sum''" "''two-sum'' \<noteq> []" "selectedLanguage session0 = Some python"
    "timers session0 = []"
    "\<forall>e \<in> set [(500, Some (js ''ab'')), (1999, Some (js ''abc''))]. fst e < (2000::nat)"
    "(2000::nat) \<le> 2000"
    by (simp_all add: session0_def)
  have "http session0 = []" "lang_id python = 1"
    by (simp_all add: session0_def python_def)
  with debounce_coalescing [OF h, of "Some (js ''a'')"] h show ?thesis
    by (simp add: editor_value_def)
qed

section \<open>Run and submit\<close>

lemma handleRunCode_afterWait_cases:
  "handleRunCode_afterWait cl ws w =
     (if socket_open w ws then w\<lparr>sent := sent w @ [(the ws, request_of cl ''run'')]\<rparr>
      else w\<lparr>output' := Some (connect_failed (rc_selectedLanguage cl)), executing := False\<rparr>)"
  by (auto simp: handleRunCode_afterWait_def socket_open_def handleRunCode_send_open
      split: option.splits)

lemma handleRunCode_afterSave_cases:
  "handleRunCode_afterSave cl w =
     (let w1 = clear_result (w\<lparr>executing := True\<rparr>);
          ws = fst (initializeWebSocket w1); w2 = snd (initializeWebSocket w1)
      in if socket_open w2 ws then w2\<lparr>sent := sent w2 @ [(the ws, request_of cl ''run'')]\<rparr>
         else (console_log ''WebSocket not connected, waiting for connection...'' w2)
                \<lparr>timers := timers w2 @ [\<lparr>t_id = next_id w2, t_due = now w2 + 500,
                                           t_cb = RunWait cl ws\<rparr>],
                 next_id := Suc (next_id w2)\<rparr>)"
  by (auto simp: handleRunCode_afterSave_def socket_open_def handleRunCode_send_open Let_def
      setTimeout_def console_log_def split: option.splits prod.splits)

lemma handleRunCode_begins:
  assumes "selectedLanguage w = Some l" "problem w = Some p" "isAuthenticated w"
    "codeInitializedRef w" "slug w = Some s" "s \<noteq> []"
  shows "handleRunCode w =
     issue (AttemptUpdate s (code w) (Some (lang_id l)))
       (SaveAttemptK True (RunCaller \<lparr>rc_code = code w, rc_selectedLanguage = l, rc_problem = p\<rparr>))
       (cancel_debounce w)"
  using assms by (simp add: handleRunCode_def saveAttempt_def cancel_debounce_frame Let_def)

lemma debounce_tracked_cancel:
  "debounce_tracked w \<Longrightarrow> t \<in> set (timers (cancel_debounce w)) \<Longrightarrow> \<not> is_debounce t"
  by (auto simp: debounce_tracked_def cancel_debounce_timers)

lemma initializeWebSocket_opens:
  assumes "can_connect v" "\<not> reuses v"
  shows "fst (initializeWebSocket v) = Some (length (sockets v))"
    "sockets (snd (initializeWebSocket v)) =
       sockets v @ [\<lparr>s_url = ws_address v, s_state = CONNECTING\<rparr>]"
    "wsConnection (snd (initializeWebSocket v)) = Some (length (sockets v))"
  using assms
  by (auto simp: initializeWebSocket_def can_connect_def reuses_def socket_open_def
      console_log_def Let_def)

lemma connect_frame:
  "can_connect (clear_result (v\<lparr>executing := True\<rparr>)) = can_connect v"
  "reuses (clear_result (v\<lparr>executing := True\<rparr>)) = reuses v"
  "can_connect (clear_result (v\<lparr>submitting := True\<rparr>)) = can_connect v"
  "reuses (clear_result (v\<lparr>submitting := True\<rparr>)) = reuses v"
  "sockets (clear_result v) = sockets v"
  by (simp_all add: can_connect_def reuses_def socket_open_def readyState_of_def
      clear_result_def ws_address_def split: option.splits)

text \<open>What \<open>handleRunCode_afterSave\<close> leaves when it has to open a connection.\<close>

lemma handleRunCode_afterSave_opens:
  assumes "can_connect v" "\<not> reuses v"
  shows "sockets (handleRunCode_afterSave cl v) =
       sockets v @ [\<lparr>s_url = ws_address v, s_state = CONNECTING\<rparr>]"
    "timers (handleRunCode_afterSave cl v) =
       timers v @ [\<lparr>t_id = next_id v, t_due = now v + 500,
         t_cb = RunWait cl (Some (length (sockets v)))\<rparr>]"
    "sent (handleRunCode_afterSave cl v) = sent v"
    "http (handleRunCode_afterSave cl v) = http v"
    "now (handleRunCode_afterSave cl v) = now v"
    "executing (handleRunCode_afterSave cl v)"
proof -
  let ?v = "clear_result (v\<lparr>executing := True\<rparr>)"
  have c: "can_connect ?v" "\<not> reuses ?v"
    using assms by (simp_all add: connect_frame)
  note o = initializeWebSocket_opens [OF c]
  have n: "\<not> socket_open (snd (initializeWebSocket ?v)) (fst (initializeWebSocket ?v))"
    by (simp add: o socket_open_def readyState_of_def connect_frame)
  have a: "ws_address ?v = ws_address v"
    by (simp add: ws_address_def clear_result_def)
  show "sockets (handleRunCode_afterSave cl v) =
       sockets v @ [\<lparr>s_url = ws_address v, s_state = CONNECTING\<rparr>]"
    "timers (handleRunCode_afterSave cl v) =
       timers v @ [\<lparr>t_id = next_id v, t_due = now v + 500,
         t_cb = RunWait cl (Some (length (sockets v)))\<rparr>]"
    "sent (handleRunCode_afterSave cl v) = sent v"
    "http (handleRunCode_afterSave cl v) = http v"
    "now (handleRunCode_afterSave cl v) = now v"
    "executing (handleRunCode_afterSave cl v)"
    using n
    by (simp_all add: handleRunCode_afterSave_cases Let_def o a connect_frame console_log_def
        initializeWebSocket_frame clear_result_frame)
qed

lemma settle_last:
  assumes "\<forall>q \<in> set (pending w). fst q \<noteq> i"
  shows "settle i r (w\<lparr>pending := pending w @ [(i, k)]\<rparr>) = resume k r w"
proof -
  have n: "map_of (pending w) i = None"
    using assms by (auto simp: map_of_eq_None_iff image_iff)
  have f: "filter (\<lambda>q. fst q \<noteq> i) (pending w) = pending w"
    using assms by (simp add: filter_id_conv)
  show ?thesis
    by (simp add: settle_def map_add_def n f)
qed

lemma advance_single:
  assumes "timers w = [t]" "t_due t \<le> now w + d"
  shows "advance d w =
     (run_callback (t_cb t) (w\<lparr>timers := [], now := max (now w) (t_due t)\<rparr>))\<lparr>now := now w + d\<rparr>"
  using assms by (simp add: advance_def fire_def)

lemma run_reaches_send:
  assumes h: "selectedLanguage w = Some l" "problem w = Some p" "isAuthenticated w"
      "codeInitializedRef w" "slug w = Some s" "s \<noteq> []"
    and cl: "cl = \<lparr>rc_code = code w, rc_selectedLanguage = l, rc_problem = p\<rparr>"
    and c: "can_connect w" "\<not> reuses w"
    and T: "\<forall>t \<in> set (timers w). saveTimeoutRef w = Some (t_id t)"
    and P: "\<forall>q \<in> set (pending w). fst q \<noteq> next_id w"
  shows "sockets (settle (next_id w) r (handleRunCode w)) =
       sockets w @ [\<lparr>s_url = ws_address w, s_state = CONNECTING\<rparr>]"
    and "sent (settle (next_id w) r (handleRunCode w)) = sent w"
    and "executing (settle (next_id w) r (handleRunCode w))"
    and "sent (advance 500 (settle (next_id w) r (handleRunCode w))) = sent w"
    and "sent (advance 500 (ws_onopen (length (sockets w))
            (settle (next_id w) r (handleRunCode w)))) =
       sent w @ [(length (sockets w), request_of cl ''run'')]"
    and "http (advance 500 (ws_onopen (length (sockets w))
            (settle (next_id w) r (handleRunCode w)))) =
       http w @ [AttemptUpdate s (code w) (Some (lang_id l))]"
proof -
  let ?K = "SaveAttemptK True (RunCaller cl)"
  let ?n = "length (sockets w)"
  define u where "u = (cancel_debounce w)\<lparr>http := http w @ [AttemptUpdate s (code w) (Some (lang_id l))],
      next_id := Suc (next_id w)\<rparr>"
  define v where "v = (case r of Fulfilled d \<Rightarrow> u\<lparr>savedAt := Some (now u)\<rparr>
      | Rejected \<Rightarrow> console_log ''Failed to save attempt:'' u)"
  define w2 where "w2 = handleRunCode_afterSave cl v"
  define t where "t = \<lparr>t_id = Suc (next_id w), t_due = now w + 500, t_cb = RunWait cl (Some ?n)\<rparr>"
  have b: "handleRunCode w = u\<lparr>pending := pending u @ [(next_id w, ?K)]\<rparr>"
    by (simp add: handleRunCode_begins [OF h] issue_def cancel_debounce_frame u_def cl)
  have pu: "pending u = pending w"
    by (simp add: u_def cancel_debounce_frame)
  have s: "settle (next_id w) r (handleRunCode w) = w2"
    using settle_last [of u "next_id w" r ?K] P
    by (cases r) (simp_all add: b pu w2_def v_def resume_def saveAttempt_resume_def
        continue_caller_def)
  have tu: "timers u = []"
    using T by (simp add: u_def cancel_debounce_timers filter_empty_conv)
  have fu: "sockets u = sockets w" "sent u = sent w" "now u = now w"
    "http u = http w @ [AttemptUpdate s (code w) (Some (lang_id l))]"
    "next_id u = Suc (next_id w)" "WS_URL u = WS_URL w" "access_token u = access_token w"
    "isAuthenticated u" "problem u = problem w" "memo_wsConnection u = memo_wsConnection w"
    using h(3) by (simp_all add: u_def cancel_debounce_def clearTimeout_def split: option.splits)
  have vu: "timers v = timers u" "sockets v = sockets u" "sent v = sent u" "now v = now u"
    "http v = http u" "next_id v = next_id u" "WS_URL v = WS_URL u"
    "access_token v = access_token u" "isAuthenticated v = isAuthenticated u"
    "problem v = problem u" "memo_wsConnection v = memo_wsConnection u"
    by (cases r; simp add: v_def console_log_def)+
  have a: "ws_address v = ws_address w"
    by (simp add: ws_address_def vu fu)
  have cc: "can_connect v" "\<not> reuses v"
    using c by (auto simp: can_connect_def reuses_def socket_open_def readyState_of_def a vu fu
        split: option.splits if_splits)
  have fv: "timers v = []" "sockets v = sockets w" "sent v = sent w" "now v = now w"
    "http v = http w @ [AttemptUpdate s (code w) (Some (lang_id l))]"
    "next_id v = Suc (next_id w)" "ws_address v = ws_address w"
    "can_connect v" "\<not> reuses v"
    by (simp_all add: vu fu tu a cc)
  note o = handleRunCode_afterSave_opens [OF fv(8,9), of cl]
  have f2: "sockets w2 = sockets w @ [\<lparr>s_url = ws_address w, s_state = CONNECTING\<rparr>]"
    "timers w2 = [t]" "sent w2 = sent w" "now w2 = now w" "executing w2"
    "http w2 = http w @ [AttemptUpdate s (code w) (Some (lang_id l))]"
    using o by (simp_all add: w2_def fv t_def)
  show "sockets (settle (next_id w) r (handleRunCode w)) =
       sockets w @ [\<lparr>s_url = ws_address w, s_state = CONNECTING\<rparr>]"
    "sent (settle (next_id w) r (handleRunCode w)) = sent w"
    "executing (settle (next_id w) r (handleRunCode w))"
    by (simp_all add: s f2)
  have d: "t_due t \<le> now w2 + 500" "t_cb t = RunWait cl (Some ?n)"
    by (simp_all add: t_def f2)
  show "sent (advance 500 (settle (next_id w) r (handleRunCode w))) = sent w"
    by (simp add: s advance_single [OF f2(2) d(1)] d(2) run_callback_def
        handleRunCode_afterWait_cases socket_open_def readyState_of_def f2)
  let ?w3 = "ws_onopen ?n w2"
  have o3: "?w3 = (console_log ''WebSocket connected'' w2)
      \<lparr>sockets := sockets w @ [\<lparr>s_url = ws_address w, s_state = OPEN\<rparr>], isConnected := True\<rparr>"
    by (simp add: ws_onopen_def readyState_of_def f2)
  have f3: "timers ?w3 = [t]" "sent ?w3 = sent w" "now ?w3 = now w"
    "http ?w3 = http w @ [AttemptUpdate s (code w) (Some (lang_id l))]"
    "sockets ?w3 = sockets w @ [\<lparr>s_url = ws_address w, s_state = OPEN\<rparr>]"
    by (simp_all add: o3 console_log_def f2)
  have d3: "t_due t \<le> now ?w3 + 500"
    by (simp add: t_def f3)
  show "sent (advance 500 (ws_onopen ?n (settle (next_id w) r (handleRunCode w)))) =
       sent w @ [(?n, request_of cl ''run'')]"
    by (simp add: s advance_single [OF f3(1) d3] d(2) run_callback_def
        handleRunCode_afterWait_cases socket_open_def readyState_of_def f3)
  show "http (advance 500 (ws_onopen ?n (settle (next_id w) r (handleRunCode w)))) =
       http w @ [AttemptUpdate s (code w) (Some (lang_id l))]"
    by (simp add: s advance_single [OF f3(1) d3] d(2) run_callback_def
        handleRunCode_afterWait_cases socket_open_def readyState_of_def f3)
qed

text \<open>
  Claim C5. \<open>handleRunCode\<close> in an initialized, authenticated session with a language
  selected and a problem (and its slug) loaded. Up to its first \<open>await\<close> it cancels the
  debounce timer, so that no debounced save is pending any more, and issues the silent save
  carrying \<open>code\<close> as it is at the call; nothing is sent, no socket is touched and the
  session is not yet marked as executing. Only when that save has settled (in whatever
  state \<open>v\<close> the session is then) does the handler go on: it marks the session as
  executing and asks for the connection, which, when none is reused and one can be opened,
  is a new connecting socket; it sends at once if the socket is open, and otherwise sends
  nothing and waits 500 ms, after which it sends only if the socket is open then. The
  request sent carries the code of the call. Followed through with no other event in
  between: the save settles, a socket is opened, and when it has become open by the end
  of the pause the request is sent on it, after the one save; when it has not, nothing is
  sent. The hypothesis \<open>debounce_tracked\<close> holds in every reachable state, by
  \<open>tracked_run_events\<close>.
\<close>

theorem run_order:
  assumes "selectedLanguage w = Some l" "problem w = Some p" "isAuthenticated w"
    "codeInitializedRef w" "slug w = Some s" "s \<noteq> []" "debounce_tracked w"
    and "cl = \<lparr>rc_code = code w, rc_selectedLanguage = l, rc_problem = p\<rparr>"
  shows "saveTimeoutRef (handleRunCode w) = None \<and>
     (\<forall>t \<in> set (timers (handleRunCode w)). \<not> is_debounce t) \<and>
     http (handleRunCode w) = http w @ [AttemptUpdate s (code w) (Some (lang_id l))] \<and>
     pending (handleRunCode w) = pending w @ [(next_id w, SaveAttemptK True (RunCaller cl))] \<and>
     sent (handleRunCode w) = sent w \<and> sockets (handleRunCode w) = sockets w \<and>
     executing (handleRunCode w) = executing w \<and> saving (handleRunCode w) = saving w \<and>
     (\<forall>r v. resume (SaveAttemptK True (RunCaller cl)) r v =
          handleRunCode_afterSave cl
            (case r of Fulfilled d \<Rightarrow> v\<lparr>savedAt := Some (now v)\<rparr>
             | Rejected \<Rightarrow> console_log ''Failed to save attempt:'' v)) \<and>
     (\<forall>v. http (handleRunCode_afterSave cl v) = http v \<and>
          executing (handleRunCode_afterSave cl v) \<and>
          (let ws = fst (initializeWebSocket (clear_result (v\<lparr>executing := True\<rparr>)));
               v2 = snd (initializeWebSocket (clear_result (v\<lparr>executing := True\<rparr>)))
           in if socket_open v2 ws
              then sent (handleRunCode_afterSave cl v) = sent v @ [(the ws, request_of cl ''run'')] \<and>
                   timers (handleRunCode_afterSave cl v) = timers v
              else sent (handleRunCode_afterSave cl v) = sent v \<and>
                   timers (handleRunCode_afterSave cl v) =
                     timers v @ [\<lparr>t_id = next_id v, t_due = now v + 500, t_cb = RunWait cl ws\<rparr>])) \<and>
     (\<forall>ws v. run_callback (RunWait cl ws) v = handleRunCode_afterWait cl ws v \<and>
          http (handleRunCode_afterWait cl ws v) = http v \<and>
          sent (handleRunCode_afterWait cl ws v) =
            (if socket_open v ws then sent v @ [(the ws, request_of cl ''run'')] else sent v)) \<and>
     rq_code (request_of cl ''run'') = code w \<and>
     (\<forall>v. can_connect v \<and> \<not> reuses v \<longrightarrow>
          sockets (handleRunCode_afterSave cl v) =
            sockets v @ [\<lparr>s_url = ws_address v, s_state = CONNECTING\<rparr>] \<and>
          timers (handleRunCode_afterSave cl v) =
            timers v @ [\<lparr>t_id = next_id v, t_due = now v + 500,
              t_cb = RunWait cl (Some (length (sockets v)))\<rparr>]) \<and>
     (can_connect w \<and> \<not> reuses w \<and> (\<forall>t \<in> set (timers w). saveTimeoutRef w = Some (t_id t)) \<and>
      (\<forall>q \<in> set (pending w). fst q \<noteq> next_id w) \<longrightarrow>
        (\<forall>r. sockets (settle (next_id w) r (handleRunCode w)) =
               sockets w @ [\<lparr>s_url = ws_address w, s_state = CONNECTING\<rparr>] \<and>
             executing (settle (next_id w) r (handleRunCode w)) \<and>
             sent (settle (next_id w) r (handleRunCode w)) = sent w \<and>
             sent (advance 500 (settle (next_id w) r (handleRunCode w))) = sent w \<and>
             sent (advance 500 (ws_onopen (length (sockets w))
                    (settle (next_id w) r (handleRunCode w)))) =
               sent w @ [(length (sockets w), request_of cl ''run'')] \<and>
             http (advance 500 (ws_onopen (length (sockets w))
                    (settle (next_id w) r (handleRunCode w)))) =
               http w @ [AttemptUpdate s (code w) (Some (lang_id l))]))"
proof -
  note b = handleRunCode_begins [OF assms(1-6)]
  have 1: "saveTimeoutRef (handleRunCode w) = None"
    by (simp add: b issue_def cancel_debounce_timers)
  have 2: "\<forall>t \<in> set (timers (handleRunCode w)). \<not> is_debounce t"
    using debounce_tracked_cancel [OF assms(7)] by (simp add: b issue_def)
  have 3: "http (handleRunCode w) = http w @ [AttemptUpdate s (code w) (Some (lang_id l))]"
    by (simp add: b issue_def cancel_debounce_frame)
  have 4: "pending (handleRunCode w) = pending w @ [(next_id w, SaveAttemptK True (RunCaller cl))]"
    by (simp add: b issue_def cancel_debounce_frame assms(8))
  have 5: "sent (handleRunCode w) = sent w" "sockets (handleRunCode w) = sockets w"
    "executing (handleRunCode w) = executing w" "saving (handleRunCode w) = saving w"
    by (simp_all add: b issue_def cancel_debounce_frame)
  have 6: "resume (SaveAttemptK True (RunCaller cl)) r v =
          handleRunCode_afterSave cl
            (case r of Fulfilled d \<Rightarrow> v\<lparr>savedAt := Some (now v)\<rparr>
             | Rejected \<Rightarrow> console_log ''Failed to save attempt:'' v)" for r v
    by (cases r) (simp_all add: resume_def saveAttempt_resume_def continue_caller_def)
  have 7: "http (handleRunCode_afterSave cl v) = http v \<and>
          executing (handleRunCode_afterSave cl v) \<and>
          (let ws = fst (initializeWebSocket (clear_result (v\<lparr>executing := True\<rparr>)));
               v2 = snd (initializeWebSocket (clear_result (v\<lparr>executing := True\<rparr>)))
           in if socket_open v2 ws
              then sent (handleRunCode_afterSave cl v) = sent v @ [(the ws, request_of cl ''run'')] \<and>
                   timers (handleRunCode_afterSave cl v) = timers v
              else sent (handleRunCode_afterSave cl v) = sent v \<and>
                   timers (handleRunCode_afterSave cl v) =
                     timers v @ [\<lparr>t_id = next_id v, t_due = now v + 500, t_cb = RunWait cl ws\<rparr>])" for v
    by (simp add: handleRunCode_afterSave_cases Let_def initializeWebSocket_frame console_log_def
        clear_result_def)
  have 8: "run_callback (RunWait cl ws) v = handleRunCode_afterWait cl ws v \<and>
          http (handleRunCode_afterWait cl ws v) = http v \<and>
          sent (handleRunCode_afterWait cl ws v) =
            (if socket_open v ws then sent v @ [(the ws, request_of cl ''run'')] else sent v)" for ws v
    by (simp add: handleRunCode_afterWait_cases run_callback_def)
  have 9: "rq_code (request_of cl ''run'') = code w"
    by (simp add: request_of_def assms(8))
  have 10: "can_connect v \<and> \<not> reuses v \<longrightarrow>
          sockets (handleRunCode_afterSave cl v) =
            sockets v @ [\<lparr>s_url = ws_address v, s_state = CONNECTING\<rparr>] \<and>
          timers (handleRunCode_afterSave cl v) =
            timers v @ [\<lparr>t_id = next_id v, t_due = now v + 500,
              t_cb = RunWait cl (Some (length (sockets v)))\<rparr>]" for v
    using handleRunCode_afterSave_opens [of v cl] by blast
  have 11: "can_connect w \<and> \<not> reuses w \<and> (\<forall>t \<in> set (timers w). saveTimeoutRef w = Some (t_id t)) \<and>
      (\<forall>q \<in> set (pending w). fst q \<noteq> next_id w) \<longrightarrow>
        (\<forall>r. sockets (settle (next_id w) r (handleRunCode w)) =
               sockets w @ [\<lparr>s_url = ws_address w, s_state = CONNECTING\<rparr>] \<and>
             executing (settle (next_id w) r (handleRunCode w)) \<and>
             sent (settle (next_id w) r (handleRunCode w)) = sent w \<and>
             sent (advance 500 (settle (next_id w) r (handleRunCode w))) = sent w \<and>
             sent (advance 500 (ws_onopen (length (sockets w))
                    (settle (next_id w) r (handleRunCode w)))) =
               sent w @ [(length (sockets w), request_of cl ''run'')] \<and>
             http (advance 500 (ws_onopen (length (sockets w))
                    (settle (next_id w) r (handleRunCode w)))) =
               http w @ [AttemptUpdate s (code w) (Some (lang_id l))])"
    using run_reaches_send [OF assms(1-6) assms(8)] by blast
  show ?thesis using 1 2 3 4 5 6 7 8 9 10 11 by blast
qed

theorem run_order_witness:
  "selectedLanguage typed = Some python \<and> problem typed = Some two_sum \<and>
   isAuthenticated typed \<and> codeInitializedRef typed \<and> slug typed = Some ''two-sum'' \<and>
   debounce_tracked typed \<and> can_connect typed \<and> \<not> reuses typed \<and>
   map t_id (timers typed) = [1] \<and> saveTimeoutRef typed = Some 1 \<and> pending typed = [] \<and>
   next_id typed = 2 \<and> sockets typed = [] \<and>
   timers (handleRunCode typed) = [] \<and>
   http (handleRunCode typed) = [AttemptUpdate ''two-sum'' (js ''x = 1'') (Some 1)] \<and>
   sent (handleRunCode typed) = [] \<and> \<not> executing (handleRunCode typed) \<and>
   http (advance 5000 (handleRunCode typed)) = http (handleRunCode typed) \<and>
   map s_state (sockets (settle 2 saved (handleRunCode typed))) = [CONNECTING] \<and>
   sent (advance 500 (settle 2 saved (handleRunCode typed))) = [] \<and>
   sent (advance 500 (ws_onopen 0 (settle 2 saved (handleRunCode typed)))) =
     [(0, \<lparr>rq_language = ''python'', rq_version = ''*'', rq_code = js ''x = 1'',
           rq_problem_slug = ''two-sum'', rq_mode = ''run''\<rparr>)] \<and>
   http (advance 500 (ws_onopen 0 (settle 2 saved (handleRunCode typed)))) =
     [AttemptUpdate ''two-sum'' (js ''x = 1'') (Some 1)]"
proof -
  have t: "typed = handleCodeChange (Some (js ''x = 1'')) session0"
    by (simp add: typed_def step_def page_shown_def session0_def)
  have h: "selectedLanguage typed = Some python" "problem typed = Some two_sum"
    "isAuthenticated typed" "codeInitializedRef typed" "slug typed = Some ''two-sum''"
    "''two-sum'' \<noteq> []"
    by (simp_all add: t handleCodeChange_keeps) (simp_all add: session0_def handleCodeChange_def)
  have d: "debounce_tracked typed"
    unfolding t by (rule tracked_handleCodeChange [OF tracked_session0])
  have c: "code typed = js ''x = 1''" "http typed = []" "sent typed = []" "\<not> executing typed"
    "map t_id (timers typed) = [1]" "lang_id python = 1" "saveTimeoutRef typed = Some 1"
    "pending typed = []" "next_id typed = 2" "sockets typed = []"
    by (simp_all add: t handler_defs)
  have k: "can_connect typed" "\<not> reuses typed"
    by (simp_all add: t can_connect_def reuses_def handler_defs)
  have q: "\<forall>t \<in> set (timers typed). saveTimeoutRef typed = Some (t_id t)"
    "\<forall>q \<in> set (pending typed). fst q \<noteq> next_id typed"
    by (simp_all add: t handler_defs)
  have e: "timers (handleRunCode typed) = []"
    by (simp add: t handler_defs)
  have a: "advance 5000 (handleRunCode typed) =
      (handleRunCode typed)\<lparr>now := now (handleRunCode typed) + 5000\<rparr>"
    by (rule advance_quiet) (simp add: e)
  have r: "request_of \<lparr>rc_code = js ''x = 1'', rc_selectedLanguage = python, rc_problem = two_sum\<rparr>
      ''run'' = \<lparr>rq_language = ''python'', rq_version = ''*'', rq_code = js ''x = 1'',
           rq_problem_slug = ''two-sum'', rq_mode = ''run''\<rparr>"
    by (simp add: request_of_def python_def two_sum_def)
  note m = run_order [OF h d refl]
  have 1: "http (handleRunCode typed) = http typed @ [AttemptUpdate ''two-sum'' (code typed)
      (Some (lang_id python))]" "sent (handleRunCode typed) = sent typed"
    "executing (handleRunCode typed) = executing typed"
    using m by blast+
  have 2: "sockets (settle (next_id typed) saved (handleRunCode typed)) =
      sockets typed @ [\<lparr>s_url = ws_address typed, s_state = CONNECTING\<rparr>]"
    "sent (advance 500 (settle (next_id typed) saved (handleRunCode typed))) = sent typed"
    "sent (advance 500 (ws_onopen (length (sockets typed))
        (settle (next_id typed) saved (handleRunCode typed)))) =
      sent typed @ [(length (sockets typed),
        request_of \<lparr>rc_code = code typed, rc_selectedLanguage = python, rc_problem = two_sum\<rparr>
          ''run'')]"
    "http (advance 500 (ws_onopen (length (sockets typed))
        (settle (next_id typed) saved (handleRunCode typed)))) =
      http typed @ [AttemptUpdate ''two-sum'' (code typed) (Some (lang_id python))]"
    using m k q by blast+
  show ?thesis
    using h d k e 1 2 by (simp add: c a r)
qed

lemma run_wait_armed:
  "\<not> socket_open (snd (initializeWebSocket (clear_result (v\<lparr>executing := True\<rparr>))))
       (fst (initializeWebSocket (clear_result (v\<lparr>executing := True\<rparr>)))) \<Longrightarrow>
   timers (handleRunCode_afterSave cl v) =
     timers v @ [\<lparr>t_id = next_id v, t_due = now v + 500,
       t_cb = RunWait cl (fst (initializeWebSocket (clear_result (v\<lparr>executing := True\<rparr>))))\<rparr>] \<and>
   sent (handleRunCode_afterSave cl v) = sent v"
  by (simp add: handleRunCode_afterSave_def Let_def setTimeout_def console_log_def
      initializeWebSocket_frame clear_result_frame split_def)

lemma submit_wait_armed:
  "\<not> socket_open (snd (initializeWebSocket (clear_result (v\<lparr>submitting := True\<rparr>))))
       (fst (initializeWebSocket (clear_result (v\<lparr>submitting := True\<rparr>)))) \<Longrightarrow>
   timers (handleSubmitCode_afterSave cl v) =
     timers v @ [\<lparr>t_id = next_id v, t_due = now v + 500,
       t_cb = SubmitWait cl (fst (initializeWebSocket (clear_result (v\<lparr>submitting := True\<rparr>))))\<rparr>] \<and>
   sent (handleSubmitCode_afterSave cl v) = sent v"
  by (simp add: handleSubmitCode_afterSave_def Let_def setTimeout_def console_log_def
      initializeWebSocket_frame clear_result_frame split_def)

text \<open>
  The pause before a send. When run (or submit) has marked the session and the socket it
  obtained is not open, the handler sends nothing and arms one timer of 500 ms for its
  remainder. When that timer fires, in whatever state \<open>u\<close> the session is then, and the
  socket is still not open (or there is none), the remainder sets the connectivity-error
  result as the output, clears the flag of its own handler and sends nothing.
\<close>

lemma connect_timeout:
  "(\<not> socket_open (snd (initializeWebSocket (clear_result (v\<lparr>executing := True\<rparr>))))
        (fst (initializeWebSocket (clear_result (v\<lparr>executing := True\<rparr>)))) \<longrightarrow>
      timers (handleRunCode_afterSave cl v) =
        timers v @ [\<lparr>t_id = next_id v, t_due = now v + 500,
          t_cb = RunWait cl (fst (initializeWebSocket (clear_result (v\<lparr>executing := True\<rparr>))))\<rparr>] \<and>
      sent (handleRunCode_afterSave cl v) = sent v) \<and>
   (\<not> socket_open (snd (initializeWebSocket (clear_result (v\<lparr>submitting := True\<rparr>))))
        (fst (initializeWebSocket (clear_result (v\<lparr>submitting := True\<rparr>)))) \<longrightarrow>
      timers (handleSubmitCode_afterSave cl v) =
        timers v @ [\<lparr>t_id = next_id v, t_due = now v + 500,
          t_cb = SubmitWait cl (fst (initializeWebSocket (clear_result (v\<lparr>submitting := True\<rparr>))))\<rparr>] \<and>
      sent (handleSubmitCode_afterSave cl v) = sent v) \<and>
   (\<not> socket_open u ws \<longrightarrow>
      run_callback (RunWait cl ws) u =
        u\<lparr>output' := Some (connect_failed (rc_selectedLanguage cl)), executing := False\<rparr> \<and>
      sent (run_callback (RunWait cl ws) u) = sent u \<and>
      \<not> executing (run_callback (RunWait cl ws) u) \<and>
      (\<not> submitting u \<longrightarrow> idle (run_callback (RunWait cl ws) u)) \<and>
      run_callback (SubmitWait cl ws) u =
        u\<lparr>output' := Some (connect_failed (rc_selectedLanguage cl)), submitting := False\<rparr> \<and>
      sent (run_callback (SubmitWait cl ws) u) = sent u \<and>
      \<not> submitting (run_callback (SubmitWait cl ws) u) \<and>
      (\<not> executing u \<longrightarrow> idle (run_callback (SubmitWait cl ws) u)))"
proof -
  have w: "\<not> socket_open u ws \<Longrightarrow>
      run_callback (RunWait cl ws) u =
        u\<lparr>output' := Some (connect_failed (rc_selectedLanguage cl)), executing := False\<rparr>"
    "\<not> socket_open u ws \<Longrightarrow>
      run_callback (SubmitWait cl ws) u =
        u\<lparr>output' := Some (connect_failed (rc_selectedLanguage cl)), submitting := False\<rparr>"
    by (simp_all add: run_callback_def handleRunCode_afterWait_def handleSubmitCode_afterWait_def)
  show ?thesis
    using run_wait_armed [of v cl] submit_wait_armed [of v cl]
    by (auto simp: w idle_def)
qed


text \<open>
  Claim C1. Run is clicked in an idle, initialized, authenticated session. The handler
  awaits its silent save before it marks the session as executing, so after the click the
  session is not executing and the Submit button is not disabled. A click on Submit at that
  moment is accepted; when both saves have settled and both sockets have opened, a run
  request and a submit request have been sent, both flags are set and no result has
  arrived: two requests are outstanding at once.
\<close>

theorem double_click_sends_both:
  "idle session0 \<and> \<not> executing (step ClickRun session0) \<and>
   \<not> submit_disabled (step ClickRun session0) \<and>
   map (\<lambda>x. rq_mode (snd x)) (sent (run_events double_click session0)) = [''run'', ''submit''] \<and>
   executing (run_events double_click session0) \<and>
   submitting (run_events double_click session0) \<and>
   output' (run_events double_click session0) = None"
  by (simp add: double_click_def idle_def handler_defs)

text \<open>
  Claim C2. The user types, which arms the debounce timer, and switches language before it
  fires. \<open>handleLanguageChange\<close> issues its immediate save of the outgoing language's
  code and leaves the timer pending and its handle in \<open>saveTimeoutRef\<close>; two seconds
  later the timer fires and the debounced save is issued as well. (\<open>handleRunCode\<close>,
  \<open>handleSubmitCode\<close> and the unmount cleanup go through \<open>cancel_debounce\<close> first.)
\<close>

theorem language_switch_leaves_timer:
  "map t_id (timers typed) = [1] \<and> saveTimeoutRef typed = Some 1 \<and>
   http switched = [AttemptUpdate ''two-sum'' (js ''x = 1'') (Some 1)] \<and>
   map t_id (timers switched) = [1] \<and> saveTimeoutRef switched = Some 1 \<and>
   http switched_later =
     [AttemptUpdate ''two-sum'' (js ''x = 1'') (Some 1), AttemptGet ''two-sum'' 2,
      AttemptUpdate ''two-sum'' (js ''x = 1'') (Some 1)]"
  by (simp add: typed_def switched_def switched_later_def handler_defs)

section \<open>Connections\<close>

text \<open>
  Claim C7. A first run completes: its socket opens, the request goes out on it, the
  result arrives and the session is idle, holding that open socket in \<open>wsConnection\<close>.
  A second run does not get this socket back from \<open>initializeWebSocket\<close>, whose
  closure still holds the \<open>wsConnection\<close> of an earlier render: it opens a second
  socket and sends on that one, and the first is never closed, so two connections are
  open together. The same happens to a second run started while the first socket is still
  connecting.
\<close>

theorem open_connection_not_reused:
  "idle first_run_done \<and> map s_state (sockets first_run_done) = [OPEN] \<and>
   wsConnection first_run_done = Some 0 \<and>
   map (\<lambda>x. (fst x, rq_mode (snd x))) (sent first_run_done) = [(0, ''run'')] \<and>
   map s_state (sockets second_run_done) = [OPEN, OPEN] \<and>
   wsConnection second_run_done = Some 1 \<and>
   map (\<lambda>x. (fst x, rq_mode (snd x))) (sent second_run_done) = [(0, ''run''), (1, ''run'')] \<and>
   map s_state (sockets second_run) = [CONNECTING, CONNECTING] \<and>
   map s_state (sockets both_open) = [OPEN, OPEN]"
  by (simp add: first_run_done_def second_run_done_def second_run_def both_open_def passed_def
      idle_def handleWebSocketMessage_def problem_language_slug_def handler_defs)

section \<open>Unmount\<close>

lemma unmount_cases:
  assumes "slug w = Some s" "s \<noteq> []"
  shows "unmount w =
     (if isAuthenticated w \<and> codeInitializedRef w \<and> currentCodeRef w \<noteq> [] \<and>
         currentProblemRef w \<noteq> None
      then issue (AttemptUpdate s (currentCodeRef w)
                   (locked_language_id (the (currentProblemRef w)))) UnmountSaveK
             (cancel_debounce w)
      else cancel_debounce w)"
  using assms by (auto simp: unmount_def cancel_debounce_frame Let_def split: option.splits)

text \<open>
  Claim C8. The cleanup that runs on unmount, for a page mounted with its slug. It cancels
  the debounce timer held in \<open>saveTimeoutRef\<close>. Exactly when the user is authenticated,
  the code has been initialized, the current code is not empty and a problem is loaded, it
  issues one persistence call with the current code, which it does not await; when one of
  the four fails it issues none. A failure of that call is logged and nothing else; a
  success changes nothing.
\<close>

theorem unmount_persists_once:
  assumes "slug w = Some s" "s \<noteq> []"
  shows "saveTimeoutRef (unmount w) = None \<and>
     timers (unmount w) = filter (\<lambda>t. Some (t_id t) \<noteq> saveTimeoutRef w) (timers w) \<and>
     (if isAuthenticated w \<and> codeInitializedRef w \<and> currentCodeRef w \<noteq> [] \<and>
         currentProblemRef w \<noteq> None
      then \<exists>lang. http (unmount w) = http w @ [AttemptUpdate s (currentCodeRef w) lang] \<and>
             pending (unmount w) = pending w @ [(next_id w, UnmountSaveK)]
      else http (unmount w) = http w \<and> pending (unmount w) = pending w) \<and>
     (\<forall>v. resume UnmountSaveK Rejected v = console_log ''console.error'' v) \<and>
     (\<forall>v d. resume UnmountSaveK (Fulfilled d) v = v)"
proof -
  have r: "resume UnmountSaveK Rejected v = console_log ''console.error'' v"
    "resume UnmountSaveK (Fulfilled d) v = v" for v d
    by (simp_all add: resume_def unmount_after_save_def)
  show ?thesis
    by (simp add: unmount_cases [OF assms] issue_def cancel_debounce_frame
        cancel_debounce_timers r)
qed

theorem unmount_persists_once_witness:
  "slug typed = Some ''two-sum'' \<and> saveTimeoutRef typed = Some 1 \<and>
   map t_id (timers typed) = [1] \<and>
   saveTimeoutRef (unmount typed) = None \<and> timers (unmount typed) = [] \<and>
   http (unmount typed) = [AttemptUpdate ''two-sum'' (js ''x = 1'') None] \<and>
   map snd (pending (unmount typed)) = [UnmountSaveK] \<and>
   http (unmount (typed\<lparr>currentCodeRef := []\<rparr>)) = []"
proof -
  have h: "slug typed = Some ''two-sum''" "''two-sum'' \<noteq> []"
    "slug (typed\<lparr>currentCodeRef := []\<rparr>) = Some ''two-sum''"
    by (simp_all add: typed_def handler_defs)
  have c: "saveTimeoutRef typed = Some 1" "map t_id (timers typed) = [1]"
    "isAuthenticated typed" "codeInitializedRef typed" "currentCodeRef typed = (js ''x = 1'')"
    "currentProblemRef typed = Some two_sum" "http typed = []" "pending typed = []"
    "locked_language_id two_sum = None"
    by (simp_all add: typed_def handler_defs)
  have u: "http (unmount typed) = [AttemptUpdate ''two-sum'' (js ''x = 1'') None]"
    by (simp add: unmount_cases [OF h(1,2)] c issue_def cancel_debounce_frame js_def)
  from unmount_persists_once [OF h(1,2)] unmount_persists_once [OF h(3,2)] h c u
  show ?thesis
    by (auto split: if_splits)
qed

text \<open>
  Claim C10. When the unmount cleanup issues its persistence call, the language it sends is
  the id of the problem's locked language, and no language at all for a problem without
  one; language ids are database keys and not 0. The session's selected language plays no
  part in it. The other save paths, \<open>saveAttempt\<close> and the first step of
  \<open>handleLanguageChange\<close>, send the id of the selected language.
\<close>

theorem unmount_language:
  assumes "slug w = Some s" "s \<noteq> []" "isAuthenticated w" "codeInitializedRef w"
    "currentCodeRef w \<noteq> []" "currentProblemRef w = Some p"
    and "\<forall>l. p_language p = Some l \<longrightarrow> lang_id l \<noteq> 0"
  shows "http (unmount w) =
       http w @ [AttemptUpdate s (currentCodeRef w) (map_option lang_id (p_language p))] \<and>
     (\<forall>x. http (unmount (w\<lparr>selectedLanguage := x\<rparr>)) = http (unmount w)) \<and>
     (\<forall>c silent l k. selectedLanguage w = Some l \<and> problem w \<noteq> None \<longrightarrow>
        http (saveAttempt c silent (selectedLanguage w) k w) =
          http w @ [AttemptUpdate s c (Some (lang_id l))]) \<and>
     (\<forall>i l. selectedLanguage w = Some l \<and> trim (code w) \<noteq> [] \<and>
        find (\<lambda>x. lang_id x = i) (languages w) \<noteq> None \<longrightarrow>
        http (handleLanguageChange i w) =
          http w @ [AttemptUpdate s (code w) (Some (lang_id l))])"
proof -
  have l: "locked_language_id p = map_option lang_id (p_language p)"
    using assms(7) by (auto simp: locked_language_id_def split: option.splits)
  have 1: "http (unmount w) =
       http w @ [AttemptUpdate s (currentCodeRef w) (map_option lang_id (p_language p))]"
    using assms(3-6) by (simp add: unmount_cases [OF assms(1,2)] issue_def cancel_debounce_frame l)
  have 2: "http (unmount (w\<lparr>selectedLanguage := x\<rparr>)) = http (unmount w)" for x
    by (auto simp: unmount_def cancel_debounce_def clearTimeout_def issue_def Let_def
        split: option.splits)
  have 3: "selectedLanguage w = Some l \<Longrightarrow> problem w \<noteq> None \<Longrightarrow>
        http (saveAttempt c silent (selectedLanguage w) k w) =
          http w @ [AttemptUpdate s c (Some (lang_id l))]" for c silent l k
    using assms(1-3) by (auto simp: saveAttempt_def issue_def)
  have 4: "selectedLanguage w = Some l \<Longrightarrow> trim (code w) \<noteq> [] \<Longrightarrow>
        find (\<lambda>x. lang_id x = i) (languages w) \<noteq> None \<Longrightarrow>
        http (handleLanguageChange i w) =
          http w @ [AttemptUpdate s (code w) (Some (lang_id l))]" for i l
    using assms(1-3) by (auto simp: handleLanguageChange_def issue_def)
  show ?thesis using 1 2 3 4 by blast
qed

theorem unmount_language_witness:
  "slug locked_session = Some ''two-sum'' \<and> isAuthenticated locked_session \<and>
   codeInitializedRef locked_session \<and> currentCodeRef locked_session \<noteq> [] \<and>
   currentProblemRef locked_session = Some locked_problem \<and>
   p_language locked_problem = Some javascript \<and> lang_id javascript \<noteq> 0 \<and>
   http (unmount locked_session) = [AttemptUpdate ''two-sum'' (js ''pass'') (Some 2)] \<and>
   http (unmount (locked_session\<lparr>selectedLanguage := Some python\<rparr>)) =
     [AttemptUpdate ''two-sum'' (js ''pass'') (Some 2)] \<and>
   http (saveAttempt (js ''pass'') True (selectedLanguage locked_session) NoCaller locked_session) =
     [AttemptUpdate ''two-sum'' (js ''pass'') (Some 2)]"
proof -
  have h: "slug locked_session = Some ''two-sum''" "''two-sum'' \<noteq> []"
    "isAuthenticated locked_session" "codeInitializedRef locked_session"
    "currentCodeRef locked_session \<noteq> []" "currentProblemRef locked_session = Some locked_problem"
    "\<forall>l. p_language locked_problem = Some l \<longrightarrow> lang_id l \<noteq> 0"
    by (simp_all add: locked_session_def locked_problem_def session0_def javascript_def js_def)
  have c: "http locked_session = []" "currentCodeRef locked_session = js ''pass''"
    "map_option lang_id (p_language locked_problem) = Some 2"
    "p_language locked_problem = Some javascript"
    "selectedLanguage locked_session = Some javascript" "problem locked_session \<noteq> None"
    "lang_id javascript = 2"
    by (simp_all add: locked_session_def locked_problem_def session0_def javascript_def)
  from unmount_language [OF h] h c show ?thesis
    by simp
qed

section \<open>Language switch\<close>




section \<open>Retries\<close>











end
